theory Spec2Isabelle
  imports Complex_Main
begin

section \<open>Python and numpy values used by \<open>rover.py\<close>\<close>

text \<open>
  Exceptions are values. The first two are the ones \<open>rover.py\<close> raises itself, the next
  five are raised by the Python and numpy operations it uses, and \<open>External\<close> stands for an
  exception raised inside a collaborator whose code is not part of \<open>rover.py\<close>
  (\<open>Learner.fit\<close>, \<open>Learner.predict\<close>, the strategy, \<open>metrics_to_weights\<close>).
\<close>

datatype error =
    NotFittedError
  | InvalidConfigurationError
  | IndexError
  | ValueError
  | TypeError
  | AttributeError
  | KeyError
  | External string

text \<open>
  A \<open>LearnerID\<close> is a tuple of Python integers. Floats (\<open>np.ndarray\<close> entries, the
  performance of a learner, \<open>ratio_cutoff\<close>) are modelled as reals: no claim below depends on
  rounding, and NaN and the infinities are left out.
\<close>

type_synonym learner_id = "int list"

text \<open>A Python \<open>dict\<close> keeps insertion order: an association list with distinct keys.\<close>

type_synonym ('k, 'v) dict = "('k \<times> 'v) list"

definition dict_get :: "('k, 'v) dict \<Rightarrow> 'k \<Rightarrow> 'v option" where
  "dict_get d k = map_of d k"

text \<open>\<open>d[k] = v\<close>: an existing key keeps its place, a new key goes to the end.\<close>

fun dict_set :: "('k, 'v) dict \<Rightarrow> 'k \<Rightarrow> 'v \<Rightarrow> ('k, 'v) dict" where
  "dict_set [] k v = [(k, v)]"
| "dict_set ((k', v') # d) k v =
     (if k' = k then (k, v) # d else (k', v') # dict_set d k v)"

text \<open>\<open>d.update(e)\<close>: the entries of \<open>e\<close> are stored one after the other.\<close>

definition dict_update :: "('k, 'v) dict \<Rightarrow> ('k, 'v) dict \<Rightarrow> ('k, 'v) dict" where
  "dict_update d e = foldl (\<lambda>acc (k, v). dict_set acc k v) d e"

text \<open>\<open>xs[i]\<close> on a Python list: a negative index counts from the end, out of range raises.\<close>

definition py_getitem :: "'a list \<Rightarrow> int \<Rightarrow> error + 'a" where
  "py_getitem xs i =
     (if 0 \<le> i \<and> i < int (length xs) then Inr (xs ! nat i)
      else if i < 0 \<and> - int (length xs) \<le> i then Inr (xs ! nat (int (length xs) + i))
      else Inl IndexError)"

text \<open>\<open>[xs[i] for i in ids]\<close>: the first failing index raises.\<close>

fun py_getitems :: "'a list \<Rightarrow> int list \<Rightarrow> error + 'a list" where
  "py_getitems xs [] = Inr []"
| "py_getitems xs (i # ids) =
     (case py_getitem xs i of
        Inl e \<Rightarrow> Inl e
      | Inr x \<Rightarrow> (case py_getitems xs ids of Inl e \<Rightarrow> Inl e | Inr rest \<Rightarrow> Inr (x # rest)))"

text \<open>
  The position a slice bound \<open>k\<close> denotes in a sequence of length \<open>n\<close>: \<open>xs[:k]\<close> is
  \<open>take (slice_bound k n) xs\<close> and \<open>xs[k:]\<close> is \<open>drop (slice_bound k n) xs\<close>.
\<close>

definition slice_bound :: "int \<Rightarrow> nat \<Rightarrow> nat" where
  "slice_bound k n = (if k < 0 then nat (int n + k) else min (nat k) n)"

text \<open>
  \<open>row[:k] = vals\<close> on one-dimensional numpy arrays: the value array must have the shape of
  the target slice or broadcast to it (a single element), else \<open>ValueError\<close>.
\<close>

definition np_set_prefix :: "real list \<Rightarrow> int \<Rightarrow> real list \<Rightarrow> error + real list" where
  "np_set_prefix row k vals =
     (let t = slice_bound k (length row) in
      if length vals = t then Inr (vals @ drop t row)
      else if length vals = 1 then Inr (replicate t (hd vals) @ drop t row)
      else Inl ValueError)"

text \<open>
  \<open>row[idx] = vals\<close> with an integer index array: the value array must have the length of the
  index array or a single element (\<open>ValueError\<close> otherwise); every index must lie in
  \<open>[-n, n)\<close> (\<open>IndexError\<close> otherwise, before anything is written); a negative index counts
  from the end; the assignments happen in order, so the last one wins on a repeated index.
\<close>

definition np_index_ok :: "nat \<Rightarrow> int \<Rightarrow> bool" where
  "np_index_ok n i = (- int n \<le> i \<and> i < int n)"

definition np_position :: "nat \<Rightarrow> int \<Rightarrow> nat" where
  "np_position n i = (if i < 0 then nat (int n + i) else nat i)"

fun np_put :: "real list \<Rightarrow> int list \<Rightarrow> real list \<Rightarrow> real list" where
  "np_put row (i # idx) (v # vals) = np_put (row[np_position (length row) i := v]) idx vals"
| "np_put row _ _ = row"

definition np_set_at :: "real list \<Rightarrow> int list \<Rightarrow> real list \<Rightarrow> error + real list" where
  "np_set_at row idx vals =
     (if length vals \<noteq> length idx \<and> length vals \<noteq> 1 then Inl ValueError
      else if \<not> list_all (np_index_ok (length row)) idx then Inl IndexError
      else if length vals = length idx then Inr (np_put row idx vals)
      else Inr (np_put row idx (replicate (length idx) (hd vals))))"

text \<open>
  \<open>m.T.dot(w)\<close> for a matrix \<open>m\<close> of \<open>rows\<close> rows and \<open>cols\<close> columns (held as the list of
  its rows) and a vector \<open>w\<close>: the shapes \<open>(cols, rows)\<close> and \<open>(len w,)\<close> must agree.
\<close>

definition np_T_dot :: "nat \<Rightarrow> real list list \<Rightarrow> real list \<Rightarrow> error + real list" where
  "np_T_dot cols m w =
     (if length w \<noteq> length m then Inl ValueError
      else Inr (map (\<lambda>j. sum_list (map (\<lambda>(row, wi). row ! j * wi) (zip m w))) [0..<cols]))"

section \<open>The Learner and the Rover objects\<close>

text \<open>
  The value stored under a key of one parameter's specification: the list of variables, or
  any other setting, which the Rover never inspects.
\<close>

datatype pval = PList "string list" | POther string

type_synonym pspec = "(string, pval) dict"

text \<open>
  Modelled from the spec: the class \<open>Learner\<close> (\<open>learner.py\<close> is not part of the source given).
  A learner holds what \<open>get_learner\<close> passes to its constructor, and the three attributes
  \<open>rover.py\<close> reads: \<open>performance\<close> and \<open>opt_coefs\<close> (both \<open>None\<close> until set) and
  \<open>has_been_fit\<close>. A new learner is unfit.
\<close>

record 'm learner =
  lr_model_type :: string
  lr_y :: string
  lr_param_specs :: "(string, pspec) dict"
  lr_all_covariates :: "string list"
  lr_offset :: string
  lr_weights :: string
  lr_model_eval_metric :: 'm
  performance :: "real option"
  opt_coefs :: "real list option"
  has_been_fit :: bool

definition Learner ::
  "string \<Rightarrow> string \<Rightarrow> (string, pspec) dict \<Rightarrow> string list \<Rightarrow> string \<Rightarrow> string \<Rightarrow> 'm \<Rightarrow> 'm learner"
where
  "Learner mt yc ps ac off ws metric =
     \<lparr> lr_model_type = mt, lr_y = yc, lr_param_specs = ps, lr_all_covariates = ac,
       lr_offset = off, lr_weights = ws, lr_model_eval_metric = metric,
       performance = None, opt_coefs = None, has_been_fit = False \<rparr>"

text \<open>
  The state of a run. The first thirteen fields are the attributes of the \<open>Rover\<close> object
  (\<open>cached_all_covariates\<close> is \<open>_all_covariates\<close>, \<open>None\<close> while the attribute does not
  exist). Learners are objects that are mutated in place and shared between the registry and
  local variables, so they live in a store: \<open>objs\<close> holds every \<open>Learner\<close> created so far, and
  a reference to one is its position there. \<open>fit_log\<close> is a trace, not an attribute: it
  records each call of \<open>Learner.fit\<close> made by \<open>_fit_layer\<close>, with the identity it was made
  for.
\<close>

type_synonym addr = nat

record 'm rover =
  model_type :: string
  y_col :: string
  col_fixed :: "(string, string list) dict"
  col_explore :: "string list"
  explore_param :: string
  param_specs :: "(string, pspec) dict"
  offset_col :: string
  weights_col :: string
  holdout_cols :: "string list option"
  model_eval_metric :: 'm
  learners :: "(learner_id, addr) dict"
  super_learner :: "addr option"
  cached_all_covariates :: "string list option"
  objs :: "'m learner list"
  fit_log :: "learner_id list"

text \<open>\<open>Rover.__init__\<close>, on an empty object store.\<close>

definition init ::
  "string \<Rightarrow> string \<Rightarrow> (string, string list) dict \<Rightarrow> string list \<Rightarrow> string \<Rightarrow>
   (string, pspec) dict option \<Rightarrow> string \<Rightarrow> string \<Rightarrow> string list option \<Rightarrow> 'm \<Rightarrow> 'm rover"
where
  "init mt yc cf ce ep ps off ws hc metric =
     \<lparr> model_type = mt, y_col = yc, col_fixed = cf, col_explore = ce, explore_param = ep,
       param_specs = (case ps of None \<Rightarrow> [] | Some p \<Rightarrow> p),
       offset_col = off, weights_col = ws, holdout_cols = hc, model_eval_metric = metric,
       learners = [], super_learner = None, cached_all_covariates = None,
       objs = [], fit_log = [] \<rparr>"

subsection \<open>The global covariate order\<close>

text \<open>
  The property \<open>all_covariates\<close>: computed on the first access and kept in
  \<open>_all_covariates\<close>; every later access returns what is kept there.
\<close>

definition all_covariates :: "'m rover \<Rightarrow> string list \<times> 'm rover" where
  "all_covariates r =
     (case cached_all_covariates r of
        Some ac \<Rightarrow> (ac, r)
      | None \<Rightarrow>
          (let ac = foldl (\<lambda>acc fixed_cols. acc @ fixed_cols) [] (map snd (col_fixed r));
               ac = ac @ col_explore r
           in (ac, r\<lparr>cached_all_covariates := Some ac\<rparr>)))"

definition num_covariates :: "'m rover \<Rightarrow> int \<times> 'm rover" where
  "num_covariates r = (case all_covariates r of (ac, r') \<Rightarrow> (int (length ac), r'))"

subsection \<open>Projection of a learner's coefficients to the global order\<close>

text \<open>
  \<open>_learner_coefs_to_global_coefs\<close>. \<open>np.array(learner_id) + offset\<close> is an integer array
  when the identity has an element; \<open>np.array(())\<close> is an empty array of dtype
  \<open>float64\<close>, and numpy refuses an array of floats as an index, also an empty one.
  The integers of the index array are unbounded here (numpy's are 64 bits wide).
\<close>

definition learner_coefs_to_global_coefs ::
  "'m rover \<Rightarrow> learner_id \<Rightarrow> real list \<Rightarrow> (error + real list) \<times> 'm rover"
where
  "learner_coefs_to_global_coefs r learner_id coefs =
     (case num_covariates r of (n, r1) \<Rightarrow>
       (let offset = n - int (length (col_explore r1)) in
         (case num_covariates r1 of (n', r2) \<Rightarrow>
           (let row = replicate (nat n') (0::real) in
             (case np_set_prefix row offset (take (slice_bound offset (length coefs)) coefs) of
                Inl e \<Rightarrow> (Inl e, r2)
              | Inr row \<Rightarrow>
                  (if learner_id = [] then (Inl IndexError, r2)
                   else
                     (let explore_indices = map (\<lambda>i. i + offset) learner_id in
                       (np_set_at row explore_indices
                          (drop (slice_bound offset (length coefs)) coefs), r2))))))))"

subsection \<open>The registry of learners\<close>

text \<open>
  The property \<open>default_param_specs\<close>. Both levels are \<open>defaultdict\<close>s: a missing parameter
  reads as an empty specification and a missing \<open>variables\<close> entry as the empty list.
  \<open>extend\<close> exists on a list only.
\<close>

definition dd_get :: "(string, pspec) dict \<Rightarrow> string \<Rightarrow> pspec" where
  "dd_get d k = (case dict_get d k of None \<Rightarrow> [] | Some inner \<Rightarrow> inner)"

definition dd_variables :: "pspec \<Rightarrow> pval" where
  "dd_variables inner = (case dict_get inner ''variables'' of None \<Rightarrow> PList [] | Some v \<Rightarrow> v)"

fun default_param_specs_loop ::
  "(string, pspec) dict \<Rightarrow> (string, string list) dict \<Rightarrow> (string, pspec) dict \<Rightarrow>
   error + (string, pspec) dict"
where
  "default_param_specs_loop user [] acc = Inr acc"
| "default_param_specs_loop user ((param_name, fixed_columns) # rest) acc =
     (case dd_variables (dd_get acc param_name) of
        POther _ \<Rightarrow> Inl AttributeError
      | PList vs \<Rightarrow>
          (let inner = dict_set (dd_get acc param_name) ''variables'' (PList (vs @ fixed_columns));
               inner = dict_update inner (dd_get user param_name)
           in default_param_specs_loop user rest (dict_set acc param_name inner)))"

definition default_param_specs :: "'m rover \<Rightarrow> error + (string, pspec) dict" where
  "default_param_specs r = default_param_specs_loop (param_specs r) (col_fixed r) []"

text \<open>
  \<open>get_learner\<close>. A learner found in the registry is returned as it is (the reference held
  there). Otherwise a new \<open>Learner\<close> object is created: it gets the next free place of the
  store, and the registry is not written. Adding a list to a value that is not a list
  raises \<open>TypeError\<close>.
\<close>

definition new_learner :: "'m rover \<Rightarrow> learner_id \<Rightarrow> (error + addr) \<times> 'm rover" where
  "new_learner r learner_id =
     (case py_getitems (col_explore r) learner_id of
        Inl e \<Rightarrow> (Inl e, r)
      | Inr explore_columns \<Rightarrow>
          (case default_param_specs r of
             Inl e \<Rightarrow> (Inl e, r)
           | Inr specs \<Rightarrow>
               (case dd_variables (dd_get specs (explore_param r)) of
                  POther _ \<Rightarrow> (Inl TypeError, r)
                | PList vs \<Rightarrow>
                    (let inner = dict_set (dd_get specs (explore_param r)) ''variables''
                                   (PList (vs @ explore_columns));
                         specs = dict_set specs (explore_param r) inner
                     in (case all_covariates r of (ac, r1) \<Rightarrow>
                          (Inr (length (objs r1)),
                           r1\<lparr>objs := objs r1 @
                              [Learner (model_type r1) (y_col r1) specs ac (offset_col r1)
                                 (weights_col r1) (model_eval_metric r1)]\<rparr>))))))"

definition get_learner :: "'m rover \<Rightarrow> learner_id \<Rightarrow> bool \<Rightarrow> (error + addr) \<times> 'm rover" where
  "get_learner r learner_id use_cache =
     (case dict_get (learners r) learner_id of
        Some a \<Rightarrow> (if use_cache then (Inr a, r) else new_learner r learner_id)
      | None \<Rightarrow> new_learner r learner_id)"

text \<open>The property \<open>performances\<close>.\<close>

definition performances :: "'m rover \<Rightarrow> (learner_id, real option) dict" where
  "performances r = map (\<lambda>(lid, a). (lid, performance (objs r ! a))) (learners r)"

subsection \<open>Exploration\<close>

text \<open>
  \<open>Learner.fit\<close> is not part of \<open>rover.py\<close>: it is a parameter. It is given the dataset, the
  holdout columns and the learner, and returns the learner as the call leaves it together
  with the exception it raised, if any.
\<close>

type_synonym ('d, 'm) fitter =
  "'d \<Rightarrow> string list option \<Rightarrow> 'm learner \<Rightarrow> error option \<times> 'm learner"

text \<open>
  \<open>_fit_layer\<close>. The call of \<open>fit\<close> is recorded in \<open>fit_log\<close> when it is made. An exception
  of \<open>fit\<close> is not caught: it ends the loop, before the registry is written.
\<close>

fun fit_layer ::
  "('d, 'm) fitter \<Rightarrow> 'd \<Rightarrow> 'm rover \<Rightarrow> (learner_id \<times> addr) list \<Rightarrow> (error + unit) \<times> 'm rover"
where
  "fit_layer lfit dataset r [] = (Inr (), r)"
| "fit_layer lfit dataset r ((learner_id, a) # rest) =
     (let r1 = r\<lparr>fit_log := fit_log r @ [learner_id]\<rparr> in
      (case lfit dataset (holdout_cols r1) (objs r1 ! a) of
         (exn, l) \<Rightarrow>
           (let r2 = r1\<lparr>objs := (objs r1)[a := l]\<rparr> in
            (case exn of
               Some e \<Rightarrow> (Inl e, r2)
             | None \<Rightarrow>
                 fit_layer lfit dataset
                   (r2\<lparr>learners := dict_set (learners r2) learner_id a\<rparr>) rest))))"

text \<open>
  A strategy object: its \<open>base_learner_id\<close>, and \<open>get_next_layer\<close>, which may keep a state of
  its own between calls and is given the current layer and the registry (each identity with
  its learner).
\<close>

record ('m, 's) rover_strategy =
  base_learner_id :: learner_id
  strategy_state :: 's
  get_next_layer ::
    "'s \<Rightarrow> learner_id list \<Rightarrow> (learner_id, 'm learner) dict \<Rightarrow> (error + learner_id list) \<times> 's"

datatype ('m, 's) strategy_arg = ByName string | Instance "('m, 's) rover_strategy"

text \<open>
  \<open>get_strategy\<close> (not part of \<open>rover.py\<close>) looks a class up by name; the class is then
  called with \<open>num_covs\<close>.
\<close>

type_synonym ('m, 's) strategy_lookup =
  "string \<Rightarrow> error + (int \<Rightarrow> error + ('m, 's) rover_strategy)"

text \<open>How a run ended: it returned, it raised, or the layers allowed were used up.\<close>

datatype status = Finished | Failed error | OutOfFuel

text \<open>The inner loop of \<open>_explore\<close>: the learners of the layer that have not been fit.\<close>

fun curr_learners_loop ::
  "'m rover \<Rightarrow> learner_id list \<Rightarrow> (learner_id \<times> addr) list \<Rightarrow>
   (error + (learner_id \<times> addr) list) \<times> 'm rover"
where
  "curr_learners_loop r [] curr_learners = (Inr curr_learners, r)"
| "curr_learners_loop r (learner_id # ids) curr_learners =
     (case get_learner r learner_id True of
        (Inl e, r1) \<Rightarrow> (Inl e, r1)
      | (Inr a, r1) \<Rightarrow>
          (if \<not> has_been_fit (objs r1 ! a)
           then curr_learners_loop r1 ids (curr_learners @ [(learner_id, a)])
           else curr_learners_loop r1 ids curr_learners))"

definition registry_view :: "'m rover \<Rightarrow> (learner_id, 'm learner) dict" where
  "registry_view r = map (\<lambda>(lid, a). (lid, objs r ! a)) (learners r)"

text \<open>
  The \<open>while curr_ids\<close> loop of \<open>_explore\<close>, for at most the given number of layers. A
  layer is a Python set: a list without repetition, and \<open>set(next_ids)\<close> drops the
  repetitions of what the strategy returned.
  Python iterates a set in the order of its hash table; the loop here takes the layer in
  the order in which the strategy listed it, and a strategy may list it in any order.
\<close>

fun explore_loop ::
  "('d, 'm) fitter \<Rightarrow> 'd \<Rightarrow>
   ('s \<Rightarrow> learner_id list \<Rightarrow> (learner_id, 'm learner) dict \<Rightarrow> (error + learner_id list) \<times> 's) \<Rightarrow>
   nat \<Rightarrow> 'm rover \<Rightarrow> 's \<Rightarrow> learner_id list \<Rightarrow> status \<times> 'm rover"
where
  "explore_loop lfit dataset next_layer fuel r st [] = (Finished, r)"
| "explore_loop lfit dataset next_layer 0 r st (i # ids) = (OutOfFuel, r)"
| "explore_loop lfit dataset next_layer (Suc fuel) r st (i # ids) =
     (case curr_learners_loop r (i # ids) [] of
        (Inl e, r1) \<Rightarrow> (Failed e, r1)
      | (Inr curr_learners, r1) \<Rightarrow>
          (case fit_layer lfit dataset r1 curr_learners of
             (Inl e, r2) \<Rightarrow> (Failed e, r2)
           | (Inr _, r2) \<Rightarrow>
               (case next_layer st (i # ids) (registry_view r2) of
                  (Inl e, _) \<Rightarrow> (Failed e, r2)
                | (Inr next_ids, st') \<Rightarrow>
                    explore_loop lfit dataset next_layer fuel r2 st' (remdups next_ids))))"

definition explore_with ::
  "('d, 'm) fitter \<Rightarrow> 'd \<Rightarrow> nat \<Rightarrow> 'm rover \<Rightarrow> ('m, 's) rover_strategy \<Rightarrow> status \<times> 'm rover"
where
  "explore_with lfit dataset fuel r strategy =
     explore_loop lfit dataset (get_next_layer strategy) fuel r (strategy_state strategy)
       [base_learner_id strategy]"

definition explore ::
  "('d, 'm) fitter \<Rightarrow> ('m, 's) strategy_lookup \<Rightarrow> nat \<Rightarrow> 'm rover \<Rightarrow> 'd \<Rightarrow>
   ('m, 's) strategy_arg \<Rightarrow> status \<times> 'm rover"
where
  "explore lfit get_strategy fuel r dataset strategy =
     (case strategy of
        Instance s \<Rightarrow> explore_with lfit dataset fuel r s
      | ByName name \<Rightarrow>
          (case get_strategy name of
             Inl e \<Rightarrow> (Failed e, r)
           | Inr strategy_class \<Rightarrow>
               (case num_covariates r of (n, r1) \<Rightarrow>
                 (case strategy_class n of
                    Inl e \<Rightarrow> (Failed e, r1)
                  | Inr s \<Rightarrow> explore_with lfit dataset fuel r1 s))))"

subsection \<open>The ensemble\<close>

text \<open>
  The truth value Python gives \<open>learner.performance\<close> in a condition: \<open>None\<close> and the
  number zero are false.
\<close>

definition truthy :: "real option \<Rightarrow> bool" where
  "truthy p = (case p of None \<Rightarrow> False | Some x \<Rightarrow> x \<noteq> 0)"

text \<open>
  The first loop of \<open>_generate_coefficients_matrix\<close>, over the registry in its order: the
  identities kept, and the local array \<open>performances\<close> built beside them.
\<close>

definition selected_learners :: "'m rover \<Rightarrow> learner_id list \<times> real option list" where
  "selected_learners r =
     foldl (\<lambda>(learner_ids, perfs) (learner_id, a).
              (if truthy (performance (objs r ! a)) \<and> opt_coefs (objs r ! a) \<noteq> None
               then (learner_ids @ [learner_id], perfs @ [performance (objs r ! a)])
               else (learner_ids, perfs)))
       ([], []) (learners r)"

text \<open>
  The second loop: one row per identity kept, the learner's coefficients in the global
  order. Slicing \<open>None\<close> raises \<open>TypeError\<close>, a key that is missing \<open>KeyError\<close>.
\<close>

fun coefficient_rows ::
  "'m rover \<Rightarrow> learner_id list \<Rightarrow> real list list \<Rightarrow> (error + real list list) \<times> 'm rover"
where
  "coefficient_rows r [] coefficients = (Inr coefficients, r)"
| "coefficient_rows r (learner_id # ids) coefficients =
     (case dict_get (learners r) learner_id of
        None \<Rightarrow> (Inl KeyError, r)
      | Some a \<Rightarrow>
          (case opt_coefs (objs r ! a) of
             None \<Rightarrow> (Inl TypeError, r)
           | Some coefs \<Rightarrow>
               (case learner_coefs_to_global_coefs r learner_id coefs of
                  (Inl e, r1) \<Rightarrow> (Inl e, r1)
                | (Inr all_coefs, r1) \<Rightarrow> coefficient_rows r1 ids (coefficients @ [all_coefs]))))"

text \<open>
  \<open>_generate_coefficients_matrix\<close> returns the identities kept and the matrix; the matrix
  is held as its number of columns (\<open>y_dim\<close>) and the list of its rows.
\<close>

definition generate_coefficients_matrix ::
  "'m rover \<Rightarrow> (error + learner_id list \<times> nat \<times> real list list) \<times> 'm rover"
where
  "generate_coefficients_matrix r =
     (let learner_ids = fst (selected_learners r) in
      (case num_covariates r of (y_dim, r1) \<Rightarrow>
        (case coefficient_rows r1 learner_ids [] of
           (Inl e, r2) \<Rightarrow> (Inl e, r2)
         | (Inr coefficients, r2) \<Rightarrow> (Inr (learner_ids, nat y_dim, coefficients), r2))))"

text \<open>
  \<open>metrics_to_weights\<close> (module \<open>synthesizer\<close>, not part of \<open>rover.py\<close>) is a parameter: from
  the performances, \<open>max_num_models\<close>, \<open>kernel_param\<close> and \<open>ratio_cutoff\<close> to the weights.
\<close>

type_synonym weigher = "real list \<Rightarrow> int \<Rightarrow> real \<Rightarrow> real \<Rightarrow> error + real list"

text \<open>\<open>[self.performances[key] for key in learner_ids]\<close>, as an array of numbers.\<close>

fun performances_of :: "(learner_id, real option) dict \<Rightarrow> learner_id list \<Rightarrow> error + real list" where
  "performances_of d [] = Inr []"
| "performances_of d (key # keys) =
     (case dict_get d key of
        None \<Rightarrow> Inl KeyError
      | Some None \<Rightarrow> Inl TypeError
      | Some (Some p) \<Rightarrow>
          (case performances_of d keys of Inl e \<Rightarrow> Inl e | Inr ps \<Rightarrow> Inr (p # ps)))"

definition generate_ensemble_coefficients ::
  "weigher \<Rightarrow> 'm rover \<Rightarrow> int \<Rightarrow> real \<Rightarrow> real \<Rightarrow> (error + real list) \<times> 'm rover"
where
  "generate_ensemble_coefficients metrics_to_weights r max_num_models kernel_param ratio_cutoff =
     (if ratio_cutoff > 1 \<or> max_num_models < 1 then (Inl InvalidConfigurationError, r)
      else
        (case generate_coefficients_matrix r of
           (Inl e, r1) \<Rightarrow> (Inl e, r1)
         | (Inr (learner_ids, y_dim, coefficients), r1) \<Rightarrow>
             (case performances_of (performances r1) learner_ids of
                Inl e \<Rightarrow> (Inl e, r1)
              | Inr perfs \<Rightarrow>
                  (case metrics_to_weights perfs max_num_models kernel_param ratio_cutoff of
                     Inl e \<Rightarrow> (Inl e, r1)
                   | Inr weights \<Rightarrow> (np_T_dot y_dim coefficients weights, r1)))))"

text \<open>
  \<open>_create_super_learner\<close>: the identity handed to \<open>get_learner\<close> is
  \<open>tuple(range(self.num_covariates))\<close>, and the new learner's \<open>opt_coefs\<close> is set in place.
\<close>

definition create_super_learner ::
  "weigher \<Rightarrow> 'm rover \<Rightarrow> int \<Rightarrow> real \<Rightarrow> real \<Rightarrow> (error + addr) \<times> 'm rover"
where
  "create_super_learner metrics_to_weights r max_num_models kernel_param ratio_cutoff =
     (case generate_ensemble_coefficients metrics_to_weights r max_num_models kernel_param
             ratio_cutoff of
        (Inl e, r1) \<Rightarrow> (Inl e, r1)
      | (Inr means, r1) \<Rightarrow>
          (case num_covariates r1 of (n, r2) \<Rightarrow>
            (let master_learner_id = map int [0..<nat n] in
             (case get_learner r2 master_learner_id False of
                (Inl e, r3) \<Rightarrow> (Inl e, r3)
              | (Inr a, r3) \<Rightarrow>
                  (Inr a, r3\<lparr>objs := (objs r3)[a := (objs r3 ! a)\<lparr>opt_coefs := Some means\<rparr>]\<rparr>)))))"

subsection \<open>The facade\<close>

text \<open>\<open>fit\<close>: explore, then build the super learner, then store it.\<close>

definition fit ::
  "('d, 'm) fitter \<Rightarrow> ('m, 's) strategy_lookup \<Rightarrow> weigher \<Rightarrow> nat \<Rightarrow> 'm rover \<Rightarrow> 'd \<Rightarrow>
   ('m, 's) strategy_arg \<Rightarrow> int \<Rightarrow> real \<Rightarrow> real \<Rightarrow> status \<times> 'm rover"
where
  "fit lfit get_strategy metrics_to_weights fuel r dataset strategy max_num_models kernel_param
     ratio_cutoff =
     (case explore lfit get_strategy fuel r dataset strategy of
        (Finished, r1) \<Rightarrow>
          (case create_super_learner metrics_to_weights r1 max_num_models kernel_param
                  ratio_cutoff of
             (Inl e, r2) \<Rightarrow> (Failed e, r2)
           | (Inr a, r2) \<Rightarrow> (Finished, r2\<lparr>super_learner := Some a\<rparr>))
      | (Failed e, r1) \<Rightarrow> (Failed e, r1)
      | (OutOfFuel, r1) \<Rightarrow> (OutOfFuel, r1))"

text \<open>
  \<open>check_is_fitted\<close> and \<open>predict\<close>. \<open>Learner.predict\<close> is a parameter; a \<open>Learner\<close> object
  counts as true in a condition, \<open>None\<close> as false.
\<close>

definition check_is_fitted :: "'m rover \<Rightarrow> error + unit" where
  "check_is_fitted r = (if super_learner r = None then Inl NotFittedError else Inr ())"

definition predict :: "('m learner \<Rightarrow> 'd \<Rightarrow> error + 'p) \<Rightarrow> 'm rover \<Rightarrow> 'd \<Rightarrow> error + 'p" where
  "predict lpredict r dataset =
     (case check_is_fitted r of
        Inl e \<Rightarrow> Inl e
      | Inr _ \<Rightarrow>
          (case super_learner r of
             None \<Rightarrow> Inl AttributeError
           | Some a \<Rightarrow> lpredict (objs r ! a) dataset))"

section \<open>Vocabulary of the specification\<close>

text \<open>
  \<open>fixed_count\<close>: the number of fixed covariates. \<open>cache_ok\<close>: the attribute
  \<open>_all_covariates\<close> is absent, or holds what the present \<open>col_fixed\<close> and \<open>col_explore\<close>
  give (nobody assigned to these attributes after the first access).
\<close>

definition fixed_count :: "'m rover \<Rightarrow> nat" where
  "fixed_count r = length (concat (map snd (col_fixed r)))"

definition cache_ok :: "'m rover \<Rightarrow> bool" where
  "cache_ok r =
     (case cached_all_covariates r of
        None \<Rightarrow> True
      | Some ac \<Rightarrow> ac = concat (map snd (col_fixed r)) @ col_explore r)"

text \<open>
  What the Rover relies on from \<open>Learner.fit\<close>: a call that returns leaves the learner with
  \<open>has_been_fit\<close> true.
\<close>

definition fit_marks_fitted :: "('d, 'm) fitter \<Rightarrow> bool" where
  "fit_marks_fitted lfit =
     (\<forall>dataset holdout l l'. lfit dataset holdout l = (None, l') \<longrightarrow> has_been_fit l')"

text \<open>
  \<open>refs_ok\<close>: every reference held in the registry is to an object that exists (Python has
  no other references). \<open>fitted_once\<close>: no identity occurs twice in \<open>fit_log\<close>, and every
  identity in it is registered with a learner whose \<open>has_been_fit\<close> is true.
\<close>

definition refs_ok :: "'m rover \<Rightarrow> bool" where
  "refs_ok r = list_all (\<lambda>(lid, a). a < length (objs r)) (learners r)"

definition fitted_once :: "'m rover \<Rightarrow> bool" where
  "fitted_once r =
     (distinct (fit_log r) \<and>
      list_all (\<lambda>lid. case dict_get (learners r) lid of
                         None \<Rightarrow> False
                       | Some a \<Rightarrow> has_been_fit (objs r ! a)) (fit_log r))"

text \<open>
  \<open>specs_ok\<close>: in the parameter specifications given to the Rover, whatever is stored under
  \<open>variables\<close> is a list.
\<close>

definition is_plist :: "pval \<Rightarrow> bool" where
  "is_plist v = (case v of PList _ \<Rightarrow> True | POther _ \<Rightarrow> False)"

definition vars_are_lists :: "pspec \<Rightarrow> bool" where
  "vars_are_lists spec = list_all (\<lambda>(k, v). if k = ''variables'' then is_plist v else True) spec"

definition specs_ok :: "(string, pspec) dict \<Rightarrow> bool" where
  "specs_ok specs = list_all (\<lambda>(param_name, spec). vars_are_lists spec) specs"

text \<open>
  \<open>same_config\<close>: the second state has the covariates of the first, and a cache that is in
  order if that of the first is.
\<close>

definition same_config :: "'m rover \<Rightarrow> 'm rover \<Rightarrow> bool" where
  "same_config r r' =
     (col_fixed r' = col_fixed r \<and> col_explore r' = col_explore r \<and> (cache_ok r \<longrightarrow> cache_ok r'))"

text \<open>
  \<open>keys_logged\<close>: \<open>Learner.fit\<close> has been called for every identity the registry holds (as
  on a new Rover, whose registry is empty).
\<close>

definition keys_logged :: "'m rover \<Rightarrow> bool" where
  "keys_logged r = list_all (\<lambda>(lid, a). lid \<in> set (fit_log r)) (learners r)"

text \<open>
  \<open>pending_ok\<close>: what \<open>_explore\<close> hands to \<open>_fit_layer\<close>: references to learners that exist,
  for identities that have not been fit.
\<close>

definition pending_ok :: "'m rover \<Rightarrow> (learner_id \<times> addr) list \<Rightarrow> bool" where
  "pending_ok r cl = (\<forall>(lid, a) \<in> set cl. a < length (objs r) \<and> lid \<notin> set (fit_log r))"

section \<open>Example inputs\<close>

text \<open>
  A Rover with one fixed covariate \<open>a\<close> on the parameter \<open>mu\<close> and two covariates to
  explore, and one without fixed covariates.
\<close>

definition example_rover :: "unit rover" where
  "example_rover =
     init ''gaussian'' ''obs'' [(''mu'', [''a''])] [''b'', ''c''] ''mu'' None ''offset''
       ''weights'' None ()"

definition explore_only_rover :: "unit rover" where
  "explore_only_rover =
     init ''gaussian'' ''obs'' [] [''a'', ''b'', ''c'', ''d'', ''e''] ''mu'' None ''offset''
       ''weights'' None ()"

text \<open>
  A fit that always returns, leaving the given performance and one coefficient \<open>1\<close> for each
  variable of \<open>mu\<close>; and a fit that raises for the learner whose \<open>mu\<close> variables are the given
  ones and behaves like the first for every other learner.
\<close>

definition fitted_with :: "real \<Rightarrow> unit learner \<Rightarrow> unit learner" where
  "fitted_with p l =
     l\<lparr>performance := Some p,
       opt_coefs := Some (case dd_variables (dd_get (lr_param_specs l) ''mu'') of
                            PList vs \<Rightarrow> map (\<lambda>_. 1) vs | POther _ \<Rightarrow> []),
       has_been_fit := True\<rparr>"

definition fit_scoring :: "real \<Rightarrow> (unit, unit) fitter" where
  "fit_scoring p dataset holdout l = (None, fitted_with p l)"

definition fit_failing_on :: "string list \<Rightarrow> (unit, unit) fitter" where
  "fit_failing_on vs dataset holdout l =
     (if dd_variables (dd_get (lr_param_specs l) ''mu'') = PList vs
      then (Some (External ''fit failed''), l)
      else (None, fitted_with 1 l))"

text \<open>
  A strategy that starts from the given identity, answers the first request with the given
  layer and every later one with the empty layer.
\<close>

definition two_layers :: "learner_id \<Rightarrow> learner_id list \<Rightarrow> (unit, bool) rover_strategy" where
  "two_layers base second =
     \<lparr> base_learner_id = base, strategy_state = False,
       get_next_layer = (\<lambda>asked curr_layer reg. (Inr (if asked then [] else second), True)) \<rparr>"

definition no_strategy_by_name :: "(unit, bool) strategy_lookup" where
  "no_strategy_by_name name = Inl KeyError"

text \<open>Equal weights for all the performances given.\<close>

definition equal_weights :: weigher where
  "equal_weights perfs max_num_models kernel_param ratio_cutoff =
     Inr (map (\<lambda>_. 1 / real (length perfs)) perfs)"

text \<open>The Rover after an exploration that visits the identity \<open>(0,)\<close> alone.\<close>

definition explored_rover :: "unit rover" where
  "explored_rover =
     snd (explore (fit_scoring 1) no_strategy_by_name 2 explore_only_rover ()
            (Instance (two_layers [0] [])))"

text \<open>
  The state in which the learners of the layer \<open>{(0,), (1,), (2,)}\<close> have been created and
  none is fit, and the state after the first of them has been fit.
\<close>

definition explored_layer :: "unit rover" where
  "explored_layer = snd (curr_learners_loop explore_only_rover [[0], [1], [2]] [])"

definition first_fitted :: "unit rover" where
  "first_fitted = snd (fit_layer (fit_failing_on [''b'']) () explored_layer [([0], 0)])"

section \<open>Facts about the covariate order and the registry\<close>

lemma foldl_append_concat: "foldl (\<lambda>acc fixed_cols. acc @ fixed_cols) a xs = a @ concat xs"
  by (induction xs arbitrary: a) auto

lemma all_covariates_state:
  "snd (all_covariates r) = r\<lparr>cached_all_covariates := Some (fst (all_covariates r))\<rparr>"
  by (simp add: all_covariates_def Let_def split: option.splits)

lemma num_covariates_state:
  "snd (num_covariates r) = r\<lparr>cached_all_covariates := Some (fst (all_covariates r))\<rparr>"
  using all_covariates_state [of r] by (cases "all_covariates r") (simp add: num_covariates_def)

lemma new_learner_cases:
  "(\<exists>e. new_learner r lid = (Inl e, r)) \<or>
   (\<exists>ac l. new_learner r lid =
      (Inr (length (objs r)), r\<lparr>cached_all_covariates := Some ac, objs := objs r @ [l]\<rparr>))"
proof -
  obtain ac r1 where a: "all_covariates r = (ac, r1)" by (cases "all_covariates r")
  have r1: "r1 = r\<lparr>cached_all_covariates := Some ac\<rparr>"
    using all_covariates_state [of r] a by simp
  show ?thesis
    unfolding new_learner_def a
    by (auto simp: r1 Let_def split: sum.splits pval.splits)
qed

lemma new_learner_ignores_registry:
  "new_learner (r\<lparr>learners := reg\<rparr>) lid =
     (fst (new_learner r lid), snd (new_learner r lid)\<lparr>learners := reg\<rparr>)"
  by (simp add: new_learner_def default_param_specs_def all_covariates_def Let_def
      split: sum.splits pval.splits option.splits)

lemma get_learner_uncached: "get_learner r lid False = new_learner r lid"
  by (simp add: get_learner_def split: option.splits)

lemma new_learner_learners: "learners (snd (new_learner r lid)) = learners r"
  using new_learner_cases [of r lid] by auto

lemma get_learner_learners: "learners (snd (get_learner r lid use_cache)) = learners r"
  by (simp add: get_learner_def new_learner_learners split: option.splits)

lemma all_covariates_fresh:
  "all_covariates (r\<lparr>cached_all_covariates := None\<rparr>) =
     (concat (map snd (col_fixed r)) @ col_explore r,
      r\<lparr>cached_all_covariates := Some (concat (map snd (col_fixed r)) @ col_explore r)\<rparr>)"
  by (simp add: all_covariates_def foldl_append_concat Let_def)

lemma all_covariates_cached:
  "cached_all_covariates r = Some ac \<Longrightarrow> all_covariates r = (ac, r)"
  by (simp add: all_covariates_def)

lemma all_covariates_sets_cache:
  "cached_all_covariates (snd (all_covariates r)) = Some (fst (all_covariates r))"
  by (simp add: all_covariates_def foldl_append_concat Let_def split: option.splits)

text \<open>
  C7. On a Rover whose \<open>_all_covariates\<close> has not been computed, \<open>all_covariates\<close> is the
  fixed covariate lists, in the order of \<open>col_fixed\<close>, followed by \<open>col_explore\<close>;
  \<open>num_covariates\<close> is its length, the total number of covariates; and once computed, every
  later access returns the same sequence, whatever \<open>col_fixed\<close> and \<open>col_explore\<close> have
  become.
\<close>

theorem all_covariates_global_order:
  "fst (all_covariates (r\<lparr>cached_all_covariates := None\<rparr>))
     = concat (map snd (col_fixed r)) @ col_explore r
   \<and> fst (num_covariates r) = int (length (fst (all_covariates r)))
   \<and> fst (num_covariates (r\<lparr>cached_all_covariates := None\<rparr>))
       = int (sum_list (map (length \<circ> snd) (col_fixed r)) + length (col_explore r))
   \<and> all_covariates (snd (all_covariates r)\<lparr>col_fixed := cf, col_explore := ce\<rparr>)
       = (fst (all_covariates r), snd (all_covariates r)\<lparr>col_fixed := cf, col_explore := ce\<rparr>)"
proof -
  have later: "all_covariates (snd (all_covariates r)\<lparr>col_fixed := cf, col_explore := ce\<rparr>)
       = (fst (all_covariates r), snd (all_covariates r)\<lparr>col_fixed := cf, col_explore := ce\<rparr>)"
    by (rule all_covariates_cached) (simp add: all_covariates_sets_cache)
  have n: "fst (num_covariates r) = int (length (fst (all_covariates r)))"
    by (simp add: num_covariates_def split: prod.splits)
  have total: "fst (num_covariates (r\<lparr>cached_all_covariates := None\<rparr>))
       = int (sum_list (map (length \<circ> snd) (col_fixed r)) + length (col_explore r))"
    by (simp add: num_covariates_def all_covariates_fresh length_concat comp_def)
  show ?thesis using later n total by (simp add: all_covariates_fresh)
qed

theorem all_covariates_global_order_witness:
  "fst (all_covariates (init ''gaussian'' ''obs'' [(''mu'', [''a'', ''b'']), (''sigma'', [''c''])]
          [''d'', ''e''] ''mu'' None ''offset'' ''weights'' None ()))
     = [''a'', ''b'', ''c'', ''d'', ''e'']"
  using all_covariates_global_order
    [of "init ''gaussian'' ''obs'' [(''mu'', [''a'', ''b'']), (''sigma'', [''c''])]
          [''d'', ''e''] ''mu'' None ''offset'' ''weights'' None ()"]
  by (simp add: init_def)

section \<open>What the operations leave unchanged\<close>

lemma projection_state:
  "snd (learner_coefs_to_global_coefs r lid coefs) = snd (num_covariates r)"
proof -
  obtain n r1 where a: "num_covariates r = (n, r1)" by (cases "num_covariates r")
  have r1: "r1 = r\<lparr>cached_all_covariates := Some (fst (all_covariates r))\<rparr>"
    using num_covariates_state [of r] a by simp
  obtain n' r2 where b: "num_covariates r1 = (n', r2)" by (cases "num_covariates r1")
  have "cached_all_covariates r1 = Some (fst (all_covariates r))" by (simp add: r1)
  then have "all_covariates r1 = (fst (all_covariates r), r1)" by (rule all_covariates_cached)
  then have b': "num_covariates r1 = (n', r1)" using b by (simp add: num_covariates_def)
  show ?thesis
    by (simp add: learner_coefs_to_global_coefs_def a b' Let_def split: sum.splits)
qed

lemma coefficient_rows_frame:
  "learners (snd (coefficient_rows r ids acc)) = learners r \<and>
   objs (snd (coefficient_rows r ids acc)) = objs r \<and>
   super_learner (snd (coefficient_rows r ids acc)) = super_learner r \<and>
   fit_log (snd (coefficient_rows r ids acc)) = fit_log r"
proof (induction ids arbitrary: r acc)
  case Nil
  show ?case by simp
next
  case (Cons lid ids)
  show ?case
  proof (cases "dict_get (learners r) lid")
    case None
    then show ?thesis by simp
  next
    case (Some a)
    show ?thesis
    proof (cases "opt_coefs (objs r ! a)")
      case None
      then show ?thesis using Some by simp
    next
      case (Some coefs)
      obtain res r1 where p: "learner_coefs_to_global_coefs r lid coefs = (res, r1)"
        by (cases "learner_coefs_to_global_coefs r lid coefs")
      have r1: "r1 = r\<lparr>cached_all_covariates := Some (fst (all_covariates r))\<rparr>"
        using projection_state [of r lid coefs] p by (simp add: num_covariates_state)
      show ?thesis
      proof (cases res)
        case (Inl e)
        then show ?thesis using \<open>dict_get (learners r) lid = Some a\<close> Some p by (simp add: r1)
      next
        case (Inr row)
        then show ?thesis
          using \<open>dict_get (learners r) lid = Some a\<close> Some p Cons.IH [of r1 "acc @ [row]"]
          by (simp add: r1)
      qed
    qed
  qed
qed

lemma num_covariates_frame:
  "learners (snd (num_covariates r)) = learners r \<and>
   objs (snd (num_covariates r)) = objs r \<and>
   super_learner (snd (num_covariates r)) = super_learner r \<and>
   fit_log (snd (num_covariates r)) = fit_log r"
  by (simp add: num_covariates_state)

lemma generate_coefficients_matrix_frame:
  "learners (snd (generate_coefficients_matrix r)) = learners r \<and>
   objs (snd (generate_coefficients_matrix r)) = objs r \<and>
   super_learner (snd (generate_coefficients_matrix r)) = super_learner r \<and>
   fit_log (snd (generate_coefficients_matrix r)) = fit_log r"
proof -
  obtain n r1 where a: "num_covariates r = (n, r1)" by (cases "num_covariates r")
  have f1: "learners r1 = learners r \<and> objs r1 = objs r \<and> super_learner r1 = super_learner r
        \<and> fit_log r1 = fit_log r"
    using num_covariates_frame [of r] a by simp
  obtain res r2 where b: "coefficient_rows r1 (fst (selected_learners r)) [] = (res, r2)"
    by (cases "coefficient_rows r1 (fst (selected_learners r)) []")
  have "learners r2 = learners r1 \<and> objs r2 = objs r1 \<and> super_learner r2 = super_learner r1
        \<and> fit_log r2 = fit_log r1"
    using coefficient_rows_frame [of r1 "fst (selected_learners r)" "[]"] b by simp
  then show ?thesis
    using f1 by (cases res) (simp_all add: generate_coefficients_matrix_def a b Let_def)
qed

lemma generate_ensemble_coefficients_frame:
  "learners (snd (generate_ensemble_coefficients mtw r m k c)) = learners r \<and>
   objs (snd (generate_ensemble_coefficients mtw r m k c)) = objs r \<and>
   super_learner (snd (generate_ensemble_coefficients mtw r m k c)) = super_learner r \<and>
   fit_log (snd (generate_ensemble_coefficients mtw r m k c)) = fit_log r"
proof -
  obtain res r1 where a: "generate_coefficients_matrix r = (res, r1)"
    by (cases "generate_coefficients_matrix r")
  have "learners r1 = learners r \<and> objs r1 = objs r \<and> super_learner r1 = super_learner r
        \<and> fit_log r1 = fit_log r"
    using generate_coefficients_matrix_frame [of r] a by simp
  then show ?thesis
    by (simp add: generate_ensemble_coefficients_def a split: sum.splits prod.splits)
qed

lemma new_learner_frame:
  "super_learner (snd (new_learner r lid)) = super_learner r \<and>
   fit_log (snd (new_learner r lid)) = fit_log r"
  using new_learner_cases [of r lid] by auto

lemma get_learner_frame:
  "super_learner (snd (get_learner r lid use_cache)) = super_learner r \<and>
   fit_log (snd (get_learner r lid use_cache)) = fit_log r"
  by (simp add: get_learner_def new_learner_frame split: option.splits)

lemma create_super_learner_frame:
  "learners (snd (create_super_learner mtw r m k c)) = learners r \<and>
   super_learner (snd (create_super_learner mtw r m k c)) = super_learner r \<and>
   fit_log (snd (create_super_learner mtw r m k c)) = fit_log r"
proof -
  obtain res r1 where a: "generate_ensemble_coefficients mtw r m k c = (res, r1)"
    by (cases "generate_ensemble_coefficients mtw r m k c")
  have f1: "learners r1 = learners r \<and> super_learner r1 = super_learner r \<and> fit_log r1 = fit_log r"
    using generate_ensemble_coefficients_frame [of mtw r m k c] a by simp
  obtain n r2 where b: "num_covariates r1 = (n, r2)" by (cases "num_covariates r1")
  have f2: "learners r2 = learners r1 \<and> super_learner r2 = super_learner r1 \<and> fit_log r2 = fit_log r1"
    using num_covariates_frame [of r1] b by simp
  obtain res3 r3 where g: "get_learner r2 (map int [0..<nat n]) False = (res3, r3)"
    by (cases "get_learner r2 (map int [0..<nat n]) False")
  have f3: "learners r3 = learners r2 \<and> super_learner r3 = super_learner r2 \<and> fit_log r3 = fit_log r2"
    using get_learner_frame [of r2 "map int [0..<nat n]" False]
      get_learner_learners [of r2 "map int [0..<nat n]" False] g by simp
  show ?thesis
    using f1 f2 f3
    by (cases res; cases res3) (simp_all add: create_super_learner_def a b g Let_def)
qed

lemma fit_layer_super_learner:
  "super_learner (snd (fit_layer lfit ds r ls)) = super_learner r"
proof (induction ls arbitrary: r)
  case Nil
  show ?case by simp
next
  case (Cons p ls)
  obtain lid a where p: "p = (lid, a)" by (cases p)
  show ?case
    unfolding p
    by (simp add: Let_def Cons.IH split: prod.splits option.splits)
qed

lemma curr_learners_loop_super_learner:
  "super_learner (snd (curr_learners_loop r ids acc)) = super_learner r"
proof (induction ids arbitrary: r acc)
  case Nil
  show ?case by simp
next
  case (Cons lid ids)
  obtain res r1 where g: "get_learner r lid True = (res, r1)" by (cases "get_learner r lid True")
  have "super_learner r1 = super_learner r" using get_learner_frame [of r lid True] g by simp
  then show ?case
    by (simp add: g Cons.IH split: sum.splits)
qed

lemma explore_loop_super_learner:
  "super_learner (snd (explore_loop lfit ds nl fuel r st ids)) = super_learner r"
proof (induction lfit ds nl fuel r st ids rule: explore_loop.induct)
  case (1 lfit ds nl fuel r st)
  show ?case by simp
next
  case (2 lfit ds nl r st i ids)
  show ?case by simp
next
  case (3 lfit ds nl fuel r st i ids)
  obtain res1 r1 where c: "curr_learners_loop r (i # ids) [] = (res1, r1)"
    by (cases "curr_learners_loop r (i # ids) []")
  have s1: "super_learner r1 = super_learner r"
    using curr_learners_loop_super_learner [of r "i # ids" "[]"] c by simp
  show ?case
  proof (cases res1)
    case (Inl e)
    then show ?thesis using c s1 by simp
  next
    case (Inr cl)
    obtain res2 r2 where f: "fit_layer lfit ds r1 cl = (res2, r2)"
      by (cases "fit_layer lfit ds r1 cl")
    have s2: "super_learner r2 = super_learner r1"
      using fit_layer_super_learner [of lfit ds r1 cl] f by simp
    show ?thesis
    proof (cases res2)
      case (Inl e)
      then show ?thesis using c Inr f s1 s2 by simp
    next
      case (Inr u)
      obtain res3 st' where n: "nl st (i # ids) (registry_view r2) = (res3, st')"
        by (cases "nl st (i # ids) (registry_view r2)")
      show ?thesis
      proof (cases res3)
        case (Inl e)
        then show ?thesis using c \<open>res1 = Inr cl\<close> f Inr n s1 s2 by simp
      next
        case (Inr next_ids)
        have "super_learner (snd (explore_loop lfit ds nl fuel r2 st' (remdups next_ids)))
              = super_learner r2"
          using "3.IH" [OF c [symmetric] \<open>res1 = Inr cl\<close> f [symmetric] \<open>res2 = Inr u\<close>
              n [symmetric] Inr] .
        then show ?thesis using c \<open>res1 = Inr cl\<close> f \<open>res2 = Inr u\<close> n Inr s1 s2 by simp
      qed
    qed
  qed
qed

lemma explore_super_learner:
  "super_learner (snd (explore lfit gs fuel r ds strategy)) = super_learner r"
proof (cases strategy)
  case (Instance s)
  then show ?thesis by (simp add: explore_def explore_with_def explore_loop_super_learner)
next
  case (ByName name)
  obtain n r1 where a: "num_covariates r = (n, r1)" by (cases "num_covariates r")
  have "super_learner r1 = super_learner r"
    using num_covariates_frame [of r] a by simp
  then show ?thesis
    using ByName
    by (simp add: explore_def explore_with_def explore_loop_super_learner a split: sum.splits)
qed

lemma fit_unfinished_super_learner:
  "fst (fit lfit gs mtw fuel r ds strategy m k c) \<noteq> Finished \<Longrightarrow>
   super_learner (snd (fit lfit gs mtw fuel r ds strategy m k c)) = super_learner r"
proof -
  assume nf: "fst (fit lfit gs mtw fuel r ds strategy m k c) \<noteq> Finished"
  obtain st r1 where e: "explore lfit gs fuel r ds strategy = (st, r1)"
    by (cases "explore lfit gs fuel r ds strategy")
  have s1: "super_learner r1 = super_learner r"
    using explore_super_learner [of lfit gs fuel r ds strategy] e by simp
  obtain res r2 where cs: "create_super_learner mtw r1 m k c = (res, r2)"
    by (cases "create_super_learner mtw r1 m k c")
  have s2: "super_learner r2 = super_learner r1"
    using create_super_learner_frame [of mtw r1 m k c] cs by simp
  show ?thesis
    using nf s1 s2
    by (cases st; cases res) (simp_all add: fit_def e cs)
qed

section \<open>Each identity is fit at most once\<close>

lemma dict_get_dict_set:
  "dict_get (dict_set d k v) k' = (if k' = k then Some v else dict_get d k')"
  by (induction d) (auto simp: dict_get_def)

lemma set_dict_set: "set (dict_set d k v) \<subseteq> insert (k, v) (set d)"
  by (induction d) (auto split: if_splits)

lemma new_learner_objs:
  "\<exists>extra. objs (snd (new_learner r lid)) = objs r @ extra \<and>
     (\<forall>a. fst (new_learner r lid) = Inr a \<longrightarrow> a = length (objs r) \<and> extra \<noteq> [])"
  using new_learner_cases [of r lid] by auto

lemma get_learner_cached:
  "dict_get (learners r) lid = Some a \<Longrightarrow> get_learner r lid True = (Inr a, r)"
  by (simp add: get_learner_def)

lemma get_learner_miss:
  "dict_get (learners r) lid = None \<Longrightarrow> get_learner r lid True = new_learner r lid"
  by (simp add: get_learner_def)

text \<open>What one lookup of the inner loop of \<open>_explore\<close> preserves and yields.\<close>

lemma get_learner_inv:
  assumes g: "get_learner r lid True = (res, r1)"
    and ok: "refs_ok r" and inv: "fitted_once r"
  shows "refs_ok r1 \<and> fitted_once r1 \<and> fit_log r1 = fit_log r \<and> learners r1 = learners r \<and>
         length (objs r) \<le> length (objs r1) \<and>
         (\<forall>b < length (objs r). objs r1 ! b = objs r ! b) \<and>
         (\<forall>a. res = Inr a \<and> \<not> has_been_fit (objs r1 ! a) \<longrightarrow>
               a < length (objs r1) \<and> lid \<notin> set (fit_log r))"
proof (cases "dict_get (learners r) lid")
  case (Some a)
  then have e: "res = Inr a" "r1 = r" using g by (simp_all add: get_learner_cached)
  have "a < length (objs r)"
    using ok Some by (auto simp: refs_ok_def list_all_iff dict_get_def dest: map_of_SomeD)
  moreover have "lid \<notin> set (fit_log r)" if "\<not> has_been_fit (objs r ! a)"
    using inv Some that by (auto simp: fitted_once_def list_all_iff)
  ultimately show ?thesis using e ok inv by simp
next
  case None
  then have n: "new_learner r lid = (res, r1)" using g by (simp add: get_learner_miss)
  obtain extra where x: "objs r1 = objs r @ extra"
    "\<forall>a. res = Inr a \<longrightarrow> a = length (objs r) \<and> extra \<noteq> []"
    using new_learner_objs [of r lid] n by auto
  have l: "learners r1 = learners r" using new_learner_learners [of r lid] n by simp
  have f: "fit_log r1 = fit_log r" using new_learner_frame [of r lid] n by simp
  have old: "\<forall>b < length (objs r). objs r1 ! b = objs r ! b"
    by (simp add: x(1) nth_append)
  have ok1: "refs_ok r1"
    using ok by (auto simp: refs_ok_def list_all_iff l x(1))
  have a_in: "a < length (objs r)" if "dict_get (learners r) k = Some a" for k a
    using ok that by (auto simp: refs_ok_def list_all_iff dict_get_def dest: map_of_SomeD)
  have inv1: "fitted_once r1"
    using inv a_in old
    by (auto simp: fitted_once_def list_all_iff l f split: option.splits)
  have "lid \<notin> set (fit_log r)"
    using inv None by (auto simp: fitted_once_def list_all_iff)
  then show ?thesis using ok1 inv1 f l old x by auto
qed

lemma curr_learners_loop_inv:
  assumes "curr_learners_loop r ids acc = (res, r1)"
    and "refs_ok r" and "fitted_once r" and "pending_ok r acc"
    and "distinct (map fst acc @ ids)"
  shows "refs_ok r1 \<and> fitted_once r1 \<and> fit_log r1 = fit_log r \<and>
         (\<forall>cl. res = Inr cl \<longrightarrow> pending_ok r1 cl \<and> distinct (map fst cl))"
  using assms
proof (induction ids arbitrary: r acc)
  case Nil
  then show ?case by auto
next
  case (Cons lid ids)
  obtain g r' where g: "get_learner r lid True = (g, r')" by (cases "get_learner r lid True")
  note gi = get_learner_inv [OF g Cons.prems(2) Cons.prems(3)]
  have pend': "pending_ok r' acc"
    using Cons.prems(4) gi by (fastforce simp: pending_ok_def)
  show ?case
  proof (cases g)
    case (Inl e)
    then show ?thesis using Cons.prems(1) g gi by auto
  next
    case (Inr a)
    show ?thesis
    proof (cases "has_been_fit (objs r' ! a)")
      case True
      have step: "curr_learners_loop r' ids acc = (res, r1)"
        using Cons.prems(1) g Inr True by simp
      have "distinct (map fst acc @ ids)" using Cons.prems(5) by auto
      from Cons.IH [OF step _ _ pend' this] gi show ?thesis by auto
    next
      case False
      have step: "curr_learners_loop r' ids (acc @ [(lid, a)]) = (res, r1)"
        using Cons.prems(1) g Inr False by simp
      have "a < length (objs r') \<and> lid \<notin> set (fit_log r)" using gi Inr False by auto
      then have p: "pending_ok r' (acc @ [(lid, a)])"
        using pend' gi by (auto simp: pending_ok_def)
      have d: "distinct (map fst (acc @ [(lid, a)]) @ ids)" using Cons.prems(5) by auto
      from Cons.IH [OF step _ _ p d] gi show ?thesis by auto
    qed
  qed
qed

lemma fit_layer_inv:
  assumes "fit_layer lfit ds r cl = (res, r')"
    and "fit_marks_fitted lfit"
    and "refs_ok r" and "fitted_once r" and "pending_ok r cl" and "distinct (map fst cl)"
  shows "distinct (fit_log r') \<and> (res = Inr () \<longrightarrow> refs_ok r' \<and> fitted_once r')"
  using assms
proof (induction cl arbitrary: r)
  case Nil
  then show ?case by (auto simp: fitted_once_def)
next
  case (Cons p cl)
  obtain lid a where p: "p = (lid, a)" by (cases p)
  have a: "a < length (objs r)" and fresh: "lid \<notin> set (fit_log r)"
    using Cons.prems(5) by (auto simp: pending_ok_def p)
  have dl: "distinct (fit_log r)" using Cons.prems(4) by (simp add: fitted_once_def)
  obtain exn l where f: "lfit ds (holdout_cols r) (objs r ! a) = (exn, l)"
    by (cases "lfit ds (holdout_cols r) (objs r ! a)")
  show ?case
  proof (cases exn)
    case (Some e)
    then have "r' = r\<lparr>fit_log := fit_log r @ [lid], objs := (objs r)[a := l]\<rparr>" "res = Inl e"
      using Cons.prems(1) f by (simp_all add: p Let_def)
    then show ?thesis using dl fresh by simp
  next
    case None
    define r3 where "r3 = r\<lparr>fit_log := fit_log r @ [lid], objs := (objs r)[a := l],
                            learners := dict_set (learners r) lid a\<rparr>"
    have step: "fit_layer lfit ds r3 cl = (res, r')"
      using Cons.prems(1) f None by (simp add: p Let_def r3_def)
    have fitted: "has_been_fit l"
      using Cons.prems(2) f None by (auto simp: fit_marks_fitted_def)
    have ok3: "refs_ok r3"
      using Cons.prems(3) a set_dict_set [of "learners r" lid a]
      by (auto simp: refs_ok_def list_all_iff r3_def)
    have old: "has_been_fit ((objs r)[a := l] ! b)" if "has_been_fit (objs r ! b)" for b
      using that fitted a by (cases "b = a") simp_all
    have inv3: "fitted_once r3"
      using Cons.prems(4) fresh fitted a old
      by (auto simp: fitted_once_def list_all_iff r3_def dict_get_dict_set split: option.splits)
    have pend3: "pending_ok r3 cl"
      using Cons.prems(5) Cons.prems(6) by (force simp: pending_ok_def r3_def p)
    have "distinct (map fst cl)" using Cons.prems(6) by simp
    from Cons.IH [OF step Cons.prems(2) ok3 inv3 pend3 this] show ?thesis .
  qed
qed

lemma explore_loop_inv:
  assumes "fit_marks_fitted lfit" and "refs_ok r" and "fitted_once r" and "distinct ids"
  shows "distinct (fit_log (snd (explore_loop lfit ds nl fuel r st ids)))"
  using assms
proof (induction lfit ds nl fuel r st ids rule: explore_loop.induct)
  case (1 lfit ds nl fuel r st)
  then show ?case by (simp add: fitted_once_def)
next
  case (2 lfit ds nl r st i ids)
  then show ?case by (simp add: fitted_once_def)
next
  case (3 lfit ds nl fuel r st i ids)
  obtain res1 r1 where c: "curr_learners_loop r (i # ids) [] = (res1, r1)"
    by (cases "curr_learners_loop r (i # ids) []")
  have ci: "refs_ok r1 \<and> fitted_once r1 \<and> fit_log r1 = fit_log r \<and>
         (\<forall>cl. res1 = Inr cl \<longrightarrow> pending_ok r1 cl \<and> distinct (map fst cl))"
  proof -
    have p0: "pending_ok r []" by (simp add: pending_ok_def)
    have d0: "distinct (map fst [] @ i # ids)" using "3.prems"(4) by simp
    show ?thesis by (rule curr_learners_loop_inv [OF c "3.prems"(2) "3.prems"(3) p0 d0])
  qed
  show ?case
  proof (cases res1)
    case (Inl e)
    have "fitted_once r1" using ci by blast
    then have "distinct (fit_log r1)" by (simp add: fitted_once_def)
    then show ?thesis using c Inl by (simp del: curr_learners_loop.simps)
  next
    case (Inr cl)
    obtain res2 r2 where f: "fit_layer lfit ds r1 cl = (res2, r2)"
      by (cases "fit_layer lfit ds r1 cl")
    have fi: "distinct (fit_log r2) \<and> (res2 = Inr () \<longrightarrow> refs_ok r2 \<and> fitted_once r2)"
      using fit_layer_inv [OF f "3.prems"(1)] ci Inr by auto
    show ?thesis
    proof (cases res2)
      case (Inl e)
      then show ?thesis using c Inr f fi by (simp del: curr_learners_loop.simps)
    next
      case (Inr u)
      obtain res3 st' where n: "nl st (i # ids) (registry_view r2) = (res3, st')"
        by (cases "nl st (i # ids) (registry_view r2)")
      show ?thesis
      proof (cases res3)
        case (Inl e)
        then show ?thesis
          using c \<open>res1 = Inr cl\<close> f Inr n fi by (simp del: curr_learners_loop.simps)
      next
        case (Inr next_ids)
        have "distinct (fit_log (snd (explore_loop lfit ds nl fuel r2 st' (remdups next_ids))))"
          using "3.IH" [OF c [symmetric] \<open>res1 = Inr cl\<close> f [symmetric] \<open>res2 = Inr u\<close>
              n [symmetric] Inr "3.prems"(1)] fi \<open>res2 = Inr u\<close>
          by simp
        then show ?thesis
          using c \<open>res1 = Inr cl\<close> f \<open>res2 = Inr u\<close> n Inr
          by (simp del: curr_learners_loop.simps)
      qed
    qed
  qed
qed

lemma fresh_log_fitted_once: "fit_log r = [] \<Longrightarrow> fitted_once r"
  by (simp add: fitted_once_def)

lemma num_covariates_refs_ok:
  "refs_ok r \<Longrightarrow> refs_ok (snd (num_covariates r))"
  by (simp add: refs_ok_def num_covariates_state)

text \<open>
  C3. When \<open>Learner.fit\<close> leaves \<open>has_been_fit\<close> true on return, a run of \<open>_explore\<close> that
  starts with an empty trace calls \<open>fit\<close> at most once for each identity, whatever the
  strategy answers, however many layers are run and however the run ends; and
  \<open>get_learner\<close> on a registered identity returns the reference held in the registry and
  changes nothing (it fits nothing).
\<close>

theorem at_most_once_fit:
  assumes "fit_marks_fitted lfit" and "refs_ok r" and "fit_log r = []"
  shows "distinct (fit_log (snd (explore lfit get_strategy fuel r dataset strategy)))
         \<and> (\<forall>learner_id a. dict_get (learners r) learner_id = Some a \<longrightarrow>
               get_learner r learner_id True = (Inr a, r))"
proof -
  have run: "distinct (fit_log (snd (explore_with lfit dataset fuel r' s)))"
    if "refs_ok r'" "fit_log r' = []" for r' and s :: "('b, 'c) rover_strategy"
    unfolding explore_with_def
    by (rule explore_loop_inv [OF assms(1) that(1) fresh_log_fitted_once [OF that(2)]]) simp
  have "distinct (fit_log (snd (explore lfit get_strategy fuel r dataset strategy)))"
  proof (cases strategy)
    case (Instance s)
    then show ?thesis using run [OF assms(2) assms(3)] by (simp add: explore_def)
  next
    case (ByName name)
    obtain n r1 where a: "num_covariates r = (n, r1)" by (cases "num_covariates r")
    have r1: "refs_ok r1" "fit_log r1 = []"
      using num_covariates_refs_ok [OF assms(2)] num_covariates_frame [of r] a assms(3)
      by simp_all
    show ?thesis
      using ByName a run [OF r1] r1(2) assms(3)
      by (simp add: explore_def split: sum.splits)
  qed
  then show ?thesis by (simp add: get_learner_cached)
qed

theorem at_most_once_fit_witness:
  "distinct (fit_log (snd (explore (fit_scoring 1) no_strategy_by_name 3 explore_only_rover ()
      (Instance (two_layers [0] [[0], [1], [0]])))))"
proof -
  have h1: "fit_marks_fitted (fit_scoring 1)"
    by (simp add: fit_marks_fitted_def fit_scoring_def fitted_with_def)
  have h2: "refs_ok explore_only_rover" by code_simp
  have h3: "fit_log explore_only_rover = []" by code_simp
  show ?thesis by (rule at_most_once_fit [OF h1 h2 h3, THEN conjunct1])
qed

section \<open>A fit that raises\<close>

lemma fit_layer_append:
  "fit_layer lfit ds r (xs @ ys) =
     (case fit_layer lfit ds r xs of
        (Inl e, r1) \<Rightarrow> (Inl e, r1)
      | (Inr u, r1) \<Rightarrow> fit_layer lfit ds r1 ys)"
proof (induction xs arbitrary: r)
  case Nil
  show ?case by simp
next
  case (Cons p xs)
  obtain lid a where p: "p = (lid, a)" by (cases p)
  show ?case
    by (simp add: p Let_def Cons.IH split: prod.splits option.splits)
qed

lemma fit_layer_raise:
  assumes "lfit ds (holdout_cols r) (objs r ! a) = (Some e, l)"
  shows "fit_layer lfit ds r ((lid, a) # rest) =
           (Inl e, r\<lparr>fit_log := fit_log r @ [lid], objs := (objs r)[a := l]\<rparr>)"
  using assms by (simp add: Let_def)

lemma fit_layer_returns:
  "fit_layer lfit ds r ls = (Inr u, r') \<Longrightarrow>
     learners r' = foldl (\<lambda>d (k, b). dict_set d k b) (learners r) ls \<and>
     fit_log r' = fit_log r @ map fst ls"
proof (induction ls arbitrary: r)
  case Nil
  then show ?case by simp
next
  case (Cons p ls)
  obtain lid a where p: "p = (lid, a)" by (cases p)
  obtain exn l where f: "lfit ds (holdout_cols r) (objs r ! a) = (exn, l)"
    by (cases "lfit ds (holdout_cols r) (objs r ! a)")
  show ?case
  proof (cases exn)
    case (Some e)
    then show ?thesis using Cons.prems f by (simp add: p Let_def)
  next
    case None
    then have "fit_layer lfit ds
        (r\<lparr>fit_log := fit_log r @ [lid], objs := (objs r)[a := l],
           learners := dict_set (learners r) lid a\<rparr>) ls = (Inr u, r')"
      using Cons.prems f by (simp add: p Let_def)
    from Cons.IH [OF this] show ?thesis by (simp add: p)
  qed
qed

lemma dict_get_foldl_dict_set:
  "k \<notin> fst ` set ls \<Longrightarrow>
     dict_get (foldl (\<lambda>d (k, b). dict_set d k b) d ls) k = dict_get d k"
  by (induction ls arbitrary: d) (auto simp: dict_get_dict_set)

lemma explored_layer_pending:
  "curr_learners_loop explore_only_rover [[0], [1], [2]] [] =
     (Inr ([([0], 0)] @ ([1], 1) # [([2], 2)]), explored_layer)"
proof -
  have "fst (curr_learners_loop explore_only_rover [[0], [1], [2]] []) =
          Inr ([([0], 0)] @ ([1], 1) # [([2], 2)])" by code_simp
  then show ?thesis unfolding explored_layer_def by (metis prod.collapse)
qed

lemma first_fitted_returns:
  "fit_layer (fit_failing_on [''b'']) () explored_layer [([0], 0)] = (Inr (), first_fitted)"
proof -
  have "fst (fit_layer (fit_failing_on [''b'']) () explored_layer [([0], 0)]) = Inr ()"
    unfolding explored_layer_def by code_simp
  then show ?thesis unfolding first_fitted_def by (metis prod.collapse)
qed

lemma second_fit_raises:
  "fit_failing_on [''b''] () (holdout_cols first_fitted) (objs first_fitted ! 1) =
     (Some (External ''fit failed''), objs first_fitted ! 1)"
  unfolding first_fitted_def explored_layer_def by code_simp

text \<open>
  C6, as the claim states it, fails: with the layer \<open>{(1,), (2,)}\<close> and a fit that raises
  for \<open>(1,)\<close>, the run ends with that exception, and when \<open>(1,)\<close> comes first \<open>(2,)\<close> is
  never fit; in the other order the run ends with the exception all the same.
\<close>

theorem fit_failure_counterexample:
  "fst (explore (fit_failing_on [''b'']) no_strategy_by_name 3 explore_only_rover ()
          (Instance (two_layers [0] [[1], [2]]))) = Failed (External ''fit failed'')
   \<and> fit_log (snd (explore (fit_failing_on [''b'']) no_strategy_by_name 3 explore_only_rover ()
          (Instance (two_layers [0] [[1], [2]])))) = [[0], [1]]
   \<and> map fst (learners (snd (explore (fit_failing_on [''b'']) no_strategy_by_name 3
          explore_only_rover () (Instance (two_layers [0] [[1], [2]]))))) = [[0]]
   \<and> fst (explore (fit_failing_on [''b'']) no_strategy_by_name 3 explore_only_rover ()
          (Instance (two_layers [0] [[2], [1]]))) = Failed (External ''fit failed'')"
  by code_simp

text \<open>
  C6, amended. When \<open>Learner.fit\<close> raises for a learner of the layer, \<open>_fit_layer\<close> ends
  with that exception at once: the trace holds the learners before it and the failing one,
  none after it; and \<open>_explore\<close> ends with the same exception.
\<close>

theorem fit_failure_aborts_run:
  assumes "curr_learners_loop r (i # ids) [] = (Inr (pre @ (learner_id, a) # rest), r1)"
    and "fit_layer lfit dataset r1 pre = (Inr (), r2)"
    and "lfit dataset (holdout_cols r2) (objs r2 ! a) = (Some e, l)"
  shows "fit_layer lfit dataset r1 (pre @ (learner_id, a) # rest) =
           (Inl e, r2\<lparr>fit_log := fit_log r2 @ [learner_id], objs := (objs r2)[a := l]\<rparr>)
       \<and> fit_log r2 = fit_log r1 @ map fst pre
       \<and> explore_loop lfit dataset next_layer (Suc fuel) r st (i # ids) =
           (Failed e, r2\<lparr>fit_log := fit_log r2 @ [learner_id], objs := (objs r2)[a := l]\<rparr>)"
proof -
  have layer: "fit_layer lfit dataset r1 (pre @ (learner_id, a) # rest) =
           (Inl e, r2\<lparr>fit_log := fit_log r2 @ [learner_id], objs := (objs r2)[a := l]\<rparr>)"
    using assms(2) assms(3) fit_layer_raise [of lfit dataset r2 a e l learner_id rest]
    by (simp add: fit_layer_append del: fit_layer.simps)
  have log: "fit_log r2 = fit_log r1 @ map fst pre"
    using fit_layer_returns [OF assms(2)] by simp
  have "explore_loop lfit dataset next_layer (Suc fuel) r st (i # ids) =
           (Failed e, r2\<lparr>fit_log := fit_log r2 @ [learner_id], objs := (objs r2)[a := l]\<rparr>)"
    using assms(1) layer by (simp del: curr_learners_loop.simps fit_layer.simps)
  then show ?thesis using layer log by simp
qed

theorem fit_failure_aborts_run_witness:
  "fst (explore_loop (fit_failing_on [''b'']) () (get_next_layer (two_layers [0] [])) (Suc 0)
          explore_only_rover False [[0], [1], [2]]) = Failed (External ''fit failed'')"
  using fit_failure_aborts_run [OF explored_layer_pending first_fitted_returns second_fit_raises,
      of "get_next_layer (two_layers [0] [])" 0 False, THEN conjunct2, THEN conjunct2]
  by (simp del: explore_loop.simps)

lemma keys_logged_unregistered:
  "keys_logged r \<Longrightarrow> lid \<notin> set (fit_log r) \<Longrightarrow> dict_get (learners r) lid = None"
  by (cases "dict_get (learners r) lid")
     (auto simp: keys_logged_def list_all_iff dict_get_def dest: map_of_SomeD)

lemma fit_layer_keys_logged:
  "keys_logged r \<Longrightarrow> keys_logged (snd (fit_layer lfit ds r cl))"
proof (induction cl arbitrary: r)
  case Nil
  then show ?case by simp
next
  case (Cons p cl)
  obtain lid a where p: "p = (lid, a)" by (cases p)
  obtain exn l where f: "lfit ds (holdout_cols r) (objs r ! a) = (exn, l)"
    by (cases "lfit ds (holdout_cols r) (objs r ! a)")
  show ?case
  proof (cases exn)
    case (Some e)
    then show ?thesis
      using Cons.prems f by (auto simp: p Let_def keys_logged_def list_all_iff)
  next
    case None
    have "keys_logged (r\<lparr>fit_log := fit_log r @ [lid], objs := (objs r)[a := l],
                          learners := dict_set (learners r) lid a\<rparr>)"
      using Cons.prems set_dict_set [of "learners r" lid a]
      by (auto simp: keys_logged_def list_all_iff)
    from Cons.IH [OF this] show ?thesis using f None by (simp add: p Let_def)
  qed
qed

lemma curr_learners_loop_frame:
  "learners (snd (curr_learners_loop r ids acc)) = learners r \<and>
   fit_log (snd (curr_learners_loop r ids acc)) = fit_log r"
proof (induction ids arbitrary: r acc)
  case Nil
  show ?case by simp
next
  case (Cons lid ids)
  obtain res r1 where g: "get_learner r lid True = (res, r1)" by (cases "get_learner r lid True")
  have "learners r1 = learners r \<and> fit_log r1 = fit_log r"
    using get_learner_frame [of r lid True] get_learner_learners [of r lid True] g by simp
  then show ?case
    by (cases res) (simp_all add: g Cons.IH)
qed

lemma curr_learners_loop_keys_logged:
  "keys_logged r \<Longrightarrow> keys_logged (snd (curr_learners_loop r ids acc))"
  using curr_learners_loop_frame [of r ids acc] by (simp add: keys_logged_def)

lemma explore_loop_keys_logged:
  "keys_logged r \<Longrightarrow> keys_logged (snd (explore_loop lfit ds nl fuel r st ids))"
proof (induction lfit ds nl fuel r st ids rule: explore_loop.induct)
  case (1 lfit ds nl fuel r st)
  then show ?case by simp
next
  case (2 lfit ds nl r st i ids)
  then show ?case by simp
next
  case (3 lfit ds nl fuel r st i ids)
  obtain res1 r1 where c: "curr_learners_loop r (i # ids) [] = (res1, r1)"
    by (cases "curr_learners_loop r (i # ids) []")
  have k1: "keys_logged r1"
    using curr_learners_loop_keys_logged [OF "3.prems", of "i # ids" "[]"] c by simp
  show ?case
  proof (cases res1)
    case (Inl e)
    then show ?thesis using c k1 by (simp del: curr_learners_loop.simps)
  next
    case (Inr cl)
    obtain res2 r2 where f: "fit_layer lfit ds r1 cl = (res2, r2)"
      by (cases "fit_layer lfit ds r1 cl")
    have k2: "keys_logged r2" using fit_layer_keys_logged [OF k1, of lfit ds cl] f by simp
    show ?thesis
    proof (cases res2)
      case (Inl e)
      then show ?thesis using c Inr f k2 by (simp del: curr_learners_loop.simps)
    next
      case (Inr u)
      obtain res3 st' where n: "nl st (i # ids) (registry_view r2) = (res3, st')"
        by (cases "nl st (i # ids) (registry_view r2)")
      show ?thesis
      proof (cases res3)
        case (Inl e)
        then show ?thesis
          using c \<open>res1 = Inr cl\<close> f Inr n k2 by (simp del: curr_learners_loop.simps)
      next
        case (Inr next_ids)
        have "keys_logged (snd (explore_loop lfit ds nl fuel r2 st' (remdups next_ids)))"
          using "3.IH" [OF c [symmetric] \<open>res1 = Inr cl\<close> f [symmetric] \<open>res2 = Inr u\<close>
              n [symmetric] Inr k2] .
        then show ?thesis
          using c \<open>res1 = Inr cl\<close> f \<open>res2 = Inr u\<close> n Inr
          by (simp del: curr_learners_loop.simps)
      qed
    qed
  qed
qed

text \<open>
  C10. \<open>get_learner\<close> never writes the registry. When \<open>Learner.fit\<close> raises for a learner of
  a layer, the registry holds what it held before the layer and the entries of the learners
  fit before the failing one, and nothing else: the entry of the failing identity is what it
  was before the layer, every other entry is unchanged, and so is every other learner
  object. On what \<open>_explore\<close> hands to \<open>_fit_layer\<close> (distinct identities that have not
  been fit, in a registry whose identities have all been handed to \<open>fit\<close>) the failing
  identity has no entry.
\<close>

theorem registry_written_only_after_fit:
  assumes "fit_layer lfit dataset r pre = (Inr (), r1)"
    and "lfit dataset (holdout_cols r1) (objs r1 ! a) = (Some e, l)"
  shows "learners (snd (get_learner r0 lid use_cache)) = learners r0
       \<and> learners (snd (fit_layer lfit dataset r (pre @ (learner_id, a) # rest)))
           = foldl (\<lambda>d (k, b). dict_set d k b) (learners r) pre
       \<and> (learner_id \<notin> fst ` set pre \<longrightarrow>
            dict_get (learners (snd (fit_layer lfit dataset r (pre @ (learner_id, a) # rest))))
              learner_id = dict_get (learners r) learner_id)
       \<and> (\<forall>k. k \<notin> fst ` set pre \<longrightarrow>
            dict_get (learners (snd (fit_layer lfit dataset r (pre @ (learner_id, a) # rest)))) k
              = dict_get (learners r) k)
       \<and> (\<forall>b. b \<noteq> a \<longrightarrow>
            objs (snd (fit_layer lfit dataset r (pre @ (learner_id, a) # rest))) ! b = objs r1 ! b)
       \<and> (keys_logged r \<and> pending_ok r (pre @ (learner_id, a) # rest) \<and>
          distinct (map fst (pre @ (learner_id, a) # rest)) \<longrightarrow>
            dict_get (learners (snd (fit_layer lfit dataset r (pre @ (learner_id, a) # rest))))
              learner_id = None)"
proof -
  have layer: "fit_layer lfit dataset r (pre @ (learner_id, a) # rest) =
           (Inl e, r1\<lparr>fit_log := fit_log r1 @ [learner_id], objs := (objs r1)[a := l]\<rparr>)"
    using assms(1) assms(2) fit_layer_raise [of lfit dataset r1 a e l learner_id rest]
    by (simp add: fit_layer_append del: fit_layer.simps)
  have reg: "learners r1 = foldl (\<lambda>d (k, b). dict_set d k b) (learners r) pre"
    using fit_layer_returns [OF assms(1)] by simp
  have none: "dict_get (foldl (\<lambda>d (k, b). dict_set d k b) (learners r) pre) learner_id = None"
    if "keys_logged r" "pending_ok r (pre @ (learner_id, a) # rest)"
       "distinct (map fst (pre @ (learner_id, a) # rest))"
  proof -
    have "learner_id \<notin> set (fit_log r)" using that(2) by (simp add: pending_ok_def)
    then have "dict_get (learners r) learner_id = None"
      by (rule keys_logged_unregistered [OF that(1)])
    moreover have "learner_id \<notin> fst ` set pre" using that(3) by auto
    ultimately show ?thesis by (simp add: dict_get_foldl_dict_set)
  qed
  show ?thesis
    using none by (simp add: layer reg get_learner_learners dict_get_foldl_dict_set)
qed

theorem registry_written_only_after_fit_witness:
  "dict_get (learners (snd (fit_layer (fit_failing_on [''b'']) () explored_layer
      ([([0], 0)] @ ([1], 1) # [([2], 2)])))) [1] = None"
proof -
  have a: "keys_logged explored_layer" unfolding explored_layer_def by code_simp
  have b: "pending_ok explored_layer ([([0], 0)] @ ([1], 1) # [([2], 2)])"
    unfolding explored_layer_def pending_ok_def by code_simp
  have c: "distinct (map fst ([([0 :: int], 0 :: nat)] @ ([1], 1) # [([2], 2)]))" by simp
  show ?thesis
    using registry_written_only_after_fit [OF first_fitted_returns second_fit_raises,
        of explored_layer "[]" True "[1]" "[([2], 2)]"] a b c
    by blast
qed

section \<open>The facade\<close>

text \<open>
  C8. While \<open>super_learner\<close> is \<open>None\<close>, \<open>check_is_fitted\<close> and \<open>predict\<close> raise
  \<open>NotFittedError\<close>, whatever \<open>Learner.predict\<close> would do; and a \<open>fit\<close> that does not
  return leaves the Rover in that state.
\<close>

theorem predict_before_fit_raises:
  fixes r :: "'m rover"
  assumes "super_learner r = None"
  shows "check_is_fitted r = Inl NotFittedError
       \<and> predict lpredict r dataset = Inl NotFittedError
       \<and> (fst (fit lfit get_strategy metrics_to_weights fuel r training strategy max_num_models
                  kernel_param ratio_cutoff) \<noteq> Finished \<longrightarrow>
            predict lpredict
              (snd (fit lfit get_strategy metrics_to_weights fuel r training strategy
                      max_num_models kernel_param ratio_cutoff)) dataset = Inl NotFittedError)"
proof -
  have p: "predict lpredict r' dataset = Inl NotFittedError" if "super_learner r' = None"
    for r' :: "'m rover"
    using that by (simp add: predict_def check_is_fitted_def)
  have c: "check_is_fitted r = Inl NotFittedError"
    using assms by (simp add: check_is_fitted_def)
  have "predict lpredict
          (snd (fit lfit get_strategy metrics_to_weights fuel r training strategy
                  max_num_models kernel_param ratio_cutoff)) dataset = Inl NotFittedError"
    if "fst (fit lfit get_strategy metrics_to_weights fuel r training strategy max_num_models
               kernel_param ratio_cutoff) \<noteq> Finished"
    using fit_unfinished_super_learner [OF that] assms by (intro p) simp
  then show ?thesis using c p [OF assms] by blast
qed

theorem predict_before_fit_raises_witness:
  "predict (\<lambda>l d. Inr [0 :: real]) example_rover () = Inl NotFittedError"
proof -
  have h: "super_learner example_rover = None" by code_simp
  show ?thesis by (rule predict_before_fit_raises [OF h, THEN conjunct2, THEN conjunct1])
qed

text \<open>
  C5, as the claim states it, fails: \<open>fit\<close> with \<open>ratio_cutoff = 1.5\<close>, and \<open>fit\<close> with
  \<open>max_num_models = 0\<close>, raise \<open>InvalidConfigurationError\<close> after \<open>Learner.fit\<close> has been
  called for the identities \<open>(0,)\<close> and \<open>(1,)\<close>.
\<close>

theorem invalid_configuration_counterexample:
  "fst (fit (fit_scoring 1) no_strategy_by_name equal_weights 3 explore_only_rover ()
          (Instance (two_layers [0] [[1]])) 10 10 (3 / 2)) = Failed InvalidConfigurationError
   \<and> fit_log (snd (fit (fit_scoring 1) no_strategy_by_name equal_weights 3 explore_only_rover ()
          (Instance (two_layers [0] [[1]])) 10 10 (3 / 2))) = [[0], [1]]
   \<and> fst (fit (fit_scoring 1) no_strategy_by_name equal_weights 3 explore_only_rover ()
          (Instance (two_layers [0] [[1]])) 0 10 (99 / 100)) = Failed InvalidConfigurationError
   \<and> fit_log (snd (fit (fit_scoring 1) no_strategy_by_name equal_weights 3 explore_only_rover ()
          (Instance (two_layers [0] [[1]])) 0 10 (99 / 100))) = [[0], [1]]"
  by code_simp

text \<open>
  C5, amended. With \<open>ratio_cutoff > 1\<close> or \<open>max_num_models < 1\<close>, \<open>fit\<close> explores first;
  when the exploration returns, \<open>fit\<close> raises \<open>InvalidConfigurationError\<close> and leaves the
  Rover as the exploration left it; when the exploration raises, \<open>fit\<close> raises what it
  raised.
\<close>

theorem invalid_configuration_after_exploration:
  fixes r :: "'m rover"
  assumes "ratio_cutoff > 1 \<or> max_num_models < 1"
  shows "fit lfit get_strategy metrics_to_weights fuel r dataset strategy max_num_models
           kernel_param ratio_cutoff =
         (case explore lfit get_strategy fuel r dataset strategy of
            (Finished, r1) \<Rightarrow> (Failed InvalidConfigurationError, r1)
          | (Failed e, r1) \<Rightarrow> (Failed e, r1)
          | (OutOfFuel, r1) \<Rightarrow> (OutOfFuel, r1))"
proof -
  have cs: "create_super_learner metrics_to_weights r1 max_num_models kernel_param ratio_cutoff
        = (Inl InvalidConfigurationError, r1)" for r1 :: "'m rover"
    using assms by (auto simp: create_super_learner_def generate_ensemble_coefficients_def)
  obtain st r1 where e: "explore lfit get_strategy fuel r dataset strategy = (st, r1)"
    by (cases "explore lfit get_strategy fuel r dataset strategy")
  show ?thesis
    by (cases st) (simp_all add: fit_def e cs)
qed

theorem invalid_configuration_after_exploration_witness:
  "fit (fit_scoring 1) no_strategy_by_name equal_weights 3 explore_only_rover ()
     (Instance (two_layers [0] [[1]])) 10 10 (3 / 2) =
   (Failed InvalidConfigurationError,
    snd (explore (fit_scoring 1) no_strategy_by_name 3 explore_only_rover ()
           (Instance (two_layers [0] [[1]]))))"
proof -
  have h: "(3 / 2 :: real) > 1 \<or> (10 :: int) < 1" by simp
  have "fst (explore (fit_scoring 1) no_strategy_by_name 3 explore_only_rover ()
           (Instance (two_layers [0] [[1]]))) = Finished" by code_simp
  then have e: "explore (fit_scoring 1) no_strategy_by_name 3 explore_only_rover ()
           (Instance (two_layers [0] [[1]])) =
     (Finished, snd (explore (fit_scoring 1) no_strategy_by_name 3 explore_only_rover ()
           (Instance (two_layers [0] [[1]]))))"
    by (metis prod.collapse)
  show ?thesis
    by (subst invalid_configuration_after_exploration [OF h]) (subst e, simp)
qed

section \<open>The ensemble\<close>

lemma foldl_select:
  "foldl (\<lambda>(ids, ps) (k, a). if P a then (ids @ [k], ps @ [g a]) else (ids, ps)) (ids, ps) xs =
     (ids @ map fst (filter (\<lambda>(k, a). P a) xs),
      ps @ map (\<lambda>(k, a). g a) (filter (\<lambda>(k, a). P a) xs))"
  by (induction xs arbitrary: ids ps) auto

lemma selected_learners_filter:
  "fst (selected_learners r) =
     map fst (filter (\<lambda>(lid, a). truthy (performance (objs r ! a)) \<and>
                                  opt_coefs (objs r ! a) \<noteq> None) (learners r))"
  unfolding selected_learners_def
  by (subst foldl_select [where P = "\<lambda>a. truthy (performance (objs r ! a)) \<and>
                                          opt_coefs (objs r ! a) \<noteq> None"]) simp

lemma selected_learners_iff:
  "lid \<in> set (fst (selected_learners r)) \<longleftrightarrow>
     (\<exists>a p. (lid, a) \<in> set (learners r) \<and> performance (objs r ! a) = Some p \<and> p \<noteq> 0 \<and>
            opt_coefs (objs r ! a) \<noteq> None)"
  by (auto simp: selected_learners_filter truthy_def split: option.splits) force

text \<open>
  C4. The code at a learner whose performance is the number zero: after both learners of
  a run have been fit with performance \<open>0.0\<close> and coefficients, the registry holds both and
  \<open>_generate_coefficients_matrix\<close> keeps none of them.
\<close>

theorem zero_performance_learner_left_out:
  "fst (generate_coefficients_matrix
          (snd (explore (fit_scoring 0) no_strategy_by_name 3 explore_only_rover ()
                  (Instance (two_layers [0] [[1]]))))) = Inr ([], 5, [])
   \<and> map fst (performances
          (snd (explore (fit_scoring 0) no_strategy_by_name 3 explore_only_rover ()
                  (Instance (two_layers [0] [[1]]))))) = [[0], [1]]"
  by code_simp

section \<open>Projection to the global order\<close>

lemma np_put_length: "length (np_put row idx vals) = length row"
  by (induction row idx vals rule: np_put.induct) auto

lemma np_put_other:
  "\<forall>i \<in> set idx. np_position (length row) i \<noteq> p \<Longrightarrow> np_put row idx vals ! p = row ! p"
  by (induction row idx vals rule: np_put.induct) auto

lemma np_put_hit:
  "length vals = length idx \<Longrightarrow> distinct (map (np_position (length row)) idx) \<Longrightarrow>
   \<forall>i \<in> set idx. np_position (length row) i < length row \<Longrightarrow>
   j < length idx \<Longrightarrow> np_put row idx vals ! np_position (length row) (idx ! j) = vals ! j"
proof (induction row idx vals arbitrary: j rule: np_put.induct)
  case (1 row i idx v vals)
  show ?case
  proof (cases j)
    case 0
    have "np_put (row[np_position (length row) i := v]) idx vals ! np_position (length row) i
          = (row[np_position (length row) i := v]) ! np_position (length row) i"
      using 1(3) by (intro np_put_other) (auto simp: image_iff)
    then show ?thesis using 0 1(4) by simp
  next
    case (Suc k)
    then show ?thesis using 1 by simp
  qed
qed auto

lemma all_covariates_ok:
  "cache_ok r \<Longrightarrow> all_covariates r =
     (concat (map snd (col_fixed r)) @ col_explore r,
      r\<lparr>cached_all_covariates := Some (concat (map snd (col_fixed r)) @ col_explore r)\<rparr>)"
  by (auto simp: cache_ok_def all_covariates_def foldl_append_concat Let_def split: option.splits)

lemma num_covariates_ok:
  "cache_ok r \<Longrightarrow> num_covariates r =
     (int (length (concat (map snd (col_fixed r))) + length (col_explore r)),
      r\<lparr>cached_all_covariates := Some (concat (map snd (col_fixed r)) @ col_explore r)\<rparr>)"
  by (simp add: num_covariates_def all_covariates_ok)

lemma cache_ok_after:
  "cache_ok (r\<lparr>cached_all_covariates := Some (concat (map snd (col_fixed r)) @ col_explore r)\<rparr>)"
  by (simp add: cache_ok_def)

lemma projection_value:
  assumes ok: "cache_ok r"
    and ne: "learner_id \<noteq> []"
    and rng: "\<forall>i \<in> set learner_id. 0 \<le> i \<and> i < int (length (col_explore r))"
    and len: "length coefs = fixed_count r + length learner_id"
  shows "fst (learner_coefs_to_global_coefs r learner_id coefs) =
     Inr (np_put (take (fixed_count r) coefs @ replicate (length (col_explore r)) 0)
            (map (\<lambda>i. i + int (fixed_count r)) learner_id) (drop (fixed_count r) coefs))"
proof -
  let ?F = "fixed_count r" and ?E = "length (col_explore r)"
  let ?r1 = "r\<lparr>cached_all_covariates := Some (concat (map snd (col_fixed r)) @ col_explore r)\<rparr>"
  have n1: "num_covariates r = (int (?F + ?E), ?r1)"
    using ok by (simp add: num_covariates_ok fixed_count_def)
  have n2: "num_covariates ?r1 = (int (?F + ?E), ?r1)"
    using num_covariates_ok [OF cache_ok_after [of r]] by (simp add: fixed_count_def)
  have sb: "slice_bound (int ?F) (length coefs) = ?F" "slice_bound (int ?F) (?F + ?E) = ?F"
    using len by (simp_all add: slice_bound_def)
  have pre: "np_set_prefix (replicate (?F + ?E) 0) (int ?F) (take ?F coefs)
             = Inr (take ?F coefs @ replicate ?E 0)"
    using len by (simp add: np_set_prefix_def sb Let_def)
  have idx: "list_all (np_index_ok (?F + ?E)) (map (\<lambda>i. i + int ?F) learner_id)"
    using rng by (auto simp: list_all_iff np_index_ok_def)
  have at: "np_set_at (take ?F coefs @ replicate ?E 0) (map (\<lambda>i. i + int ?F) learner_id) (drop ?F coefs)
        = Inr (np_put (take ?F coefs @ replicate ?E 0) (map (\<lambda>i. i + int ?F) learner_id) (drop ?F coefs))"
    using idx len by (simp add: np_set_at_def)
  show ?thesis
    using ne by (simp add: learner_coefs_to_global_coefs_def n1 n2 sb pre at Let_def nat_int_add)
qed

lemma projection_nonempty_identity:
  assumes ok: "cache_ok r"
    and ne: "learner_id \<noteq> []"
    and dist: "distinct learner_id"
    and rng: "\<forall>i \<in> set learner_id. 0 \<le> i \<and> i < int (length (col_explore r))"
    and len: "length coefs = fixed_count r + length learner_id"
  shows "\<exists>row. fst (learner_coefs_to_global_coefs r learner_id coefs) = Inr row \<and>
     int (length row) = fst (num_covariates r) \<and>
     (\<forall>i < fixed_count r. row ! i = coefs ! i) \<and>
     (\<forall>rank < length learner_id.
        row ! (fixed_count r + nat (learner_id ! rank)) = coefs ! (fixed_count r + rank)) \<and>
     (\<forall>k < length (col_explore r). int k \<notin> set learner_id \<longrightarrow> row ! (fixed_count r + k) = 0)"
proof -
  let ?F = "fixed_count r" and ?E = "length (col_explore r)"
  define base where "base = take ?F coefs @ replicate ?E (0::real)"
  define idx where "idx = map (\<lambda>i. i + int ?F) learner_id"
  define vals where "vals = drop ?F coefs"
  define row where "row = np_put base idx vals"
  have l0: "length base = ?F + ?E" using len by (simp add: base_def)
  have b1: "base ! i = coefs ! i" if "i < ?F" for i
    using that len by (simp add: base_def nth_append)
  have b2: "base ! (?F + k) = 0" if "k < ?E" for k
    using that len by (simp add: base_def nth_append)
  have lv: "length vals = length idx" using len by (simp add: vals_def idx_def)
  have pos: "np_position (length base) (i + int ?F) = ?F + nat i" if "i \<in> set learner_id" for i
    using rng that by (auto simp: l0 np_position_def nat_add_distrib)
  have posmap: "map (np_position (length base)) idx = map (\<lambda>i. ?F + nat i) learner_id"
    using pos by (simp add: idx_def)
  have val: "fst (learner_coefs_to_global_coefs r learner_id coefs) = Inr row"
    unfolding row_def base_def idx_def vals_def by (rule projection_value [OF ok ne rng len])
  have c1: "int (length row) = fst (num_covariates r)"
    using ok l0 by (simp add: row_def np_put_length num_covariates_ok fixed_count_def)
  have c2: "row ! i = coefs ! i" if "i < ?F" for i
  proof -
    have "\<forall>j \<in> set idx. np_position (length base) j \<noteq> i"
      using that pos by (auto simp: idx_def)
    then have "row ! i = base ! i" unfolding row_def by (rule np_put_other)
    then show ?thesis using that by (simp add: b1)
  qed
  have c3: "row ! (?F + nat (learner_id ! rank)) = coefs ! (?F + rank)"
    if "rank < length learner_id" for rank
  proof -
    have "inj_on (\<lambda>i. ?F + nat i) (set learner_id)"
      using rng by (auto simp: inj_on_def) (metis nat_eq_iff2 int_nat_eq)
    then have d: "distinct (map (np_position (length base)) idx)"
      using dist by (simp add: posmap distinct_map)
    have b: "\<forall>i \<in> set idx. np_position (length base) i < length base"
    proof
      fix j assume "j \<in> set idx"
      then obtain i where i: "i \<in> set learner_id" "j = i + int ?F" by (auto simp: idx_def)
      then have "nat i < ?E" using rng by auto
      then show "np_position (length base) j < length base"
        using pos [OF i(1)] i(2) l0 by simp
    qed
    have r: "rank < length idx" using that by (simp add: idx_def)
    have "row ! np_position (length base) (idx ! rank) = vals ! rank"
      unfolding row_def by (rule np_put_hit [OF lv d b r])
    moreover have "np_position (length base) (idx ! rank) = ?F + nat (learner_id ! rank)"
      using pos [of "learner_id ! rank"] that by (simp add: idx_def)
    moreover have "vals ! rank = coefs ! (?F + rank)"
      using len that by (simp add: vals_def)
    ultimately show ?thesis by simp
  qed
  have c4: "row ! (?F + k) = 0" if "k < ?E" "int k \<notin> set learner_id" for k
  proof -
    have "\<forall>j \<in> set idx. np_position (length base) j \<noteq> ?F + k"
    proof
      fix j assume "j \<in> set idx"
      then obtain i where i: "i \<in> set learner_id" "j = i + int ?F" by (auto simp: idx_def)
      then have "nat i \<noteq> k" using that(2) rng by auto
      then show "np_position (length base) j \<noteq> ?F + k"
        using pos [OF i(1)] i(2) by simp
    qed
    then have "row ! (?F + k) = base ! (?F + k)" unfolding row_def by (rule np_put_other)
    then show ?thesis using that(1) by (simp add: b2)
  qed
  show ?thesis using val c1 c2 c3 c4 by blast
qed

text \<open>
  C1. The code at the empty identity, the learner of the fixed covariates alone:
  \<open>_learner_coefs_to_global_coefs\<close> raises \<open>IndexError\<close>. (For every other identity of
  distinct indices into \<open>col_explore\<close> it returns the vector the claim describes: lemma
  \<open>projection_nonempty_identity\<close>.)
\<close>

theorem projection_fixed_only_learner_raises:
  "fst (learner_coefs_to_global_coefs example_rover [] [1 / 10]) = Inl IndexError"
  by code_simp

section \<open>The identity of the super learner\<close>

lemma py_getitems_out_of_range:
  "i \<in> set ids \<Longrightarrow> \<not> (- int (length xs) \<le> i \<and> i < int (length xs)) \<Longrightarrow>
     py_getitems xs ids = Inl IndexError"
proof (induction ids)
  case Nil
  then show ?case by simp
next
  case (Cons j ids)
  show ?case
  proof (cases "j = i")
    case True
    then show ?thesis using Cons.prems(2) by (auto simp: py_getitem_def)
  next
    case False
    then have "py_getitems xs ids = Inl IndexError" using Cons by simp
    then show ?thesis by (simp add: py_getitem_def)
  qed
qed

lemma new_learner_out_of_range:
  "i \<in> set lid \<Longrightarrow> \<not> (- int (length (col_explore r)) \<le> i \<and> i < int (length (col_explore r))) \<Longrightarrow>
     fst (new_learner r lid) = Inl IndexError"
  by (simp add: new_learner_def py_getitems_out_of_range)

lemma same_config_refl: "same_config r r"
  by (simp add: same_config_def)

lemma same_config_trans: "same_config r r1 \<Longrightarrow> same_config r1 r2 \<Longrightarrow> same_config r r2"
  by (simp add: same_config_def)

lemma num_covariates_config: "same_config r (snd (num_covariates r))"
proof -
  have "cache_ok (snd (num_covariates r))" if "cache_ok r"
    using that by (simp add: num_covariates_ok cache_ok_after)
  then show ?thesis by (auto simp: same_config_def num_covariates_state)
qed

lemma coefficient_rows_config: "same_config r (snd (coefficient_rows r ids acc))"
proof (induction ids arbitrary: r acc)
  case Nil
  show ?case by (simp add: same_config_refl)
next
  case (Cons lid ids)
  show ?case
  proof (cases "dict_get (learners r) lid")
    case None
    then show ?thesis by (simp add: same_config_refl)
  next
    case (Some a)
    show ?thesis
    proof (cases "opt_coefs (objs r ! a)")
      case None
      then show ?thesis using Some by (simp add: same_config_refl)
    next
      case (Some coefs)
      obtain res r1 where p: "learner_coefs_to_global_coefs r lid coefs = (res, r1)"
        by (cases "learner_coefs_to_global_coefs r lid coefs")
      have c1: "same_config r r1"
        using projection_state [of r lid coefs] p num_covariates_config [of r] by simp
      show ?thesis
      proof (cases res)
        case (Inl e)
        then show ?thesis using \<open>dict_get (learners r) lid = Some a\<close> Some p c1 by simp
      next
        case (Inr row)
        have "same_config r1 (snd (coefficient_rows r1 ids (acc @ [row])))" by (rule Cons.IH)
        then show ?thesis
          using \<open>dict_get (learners r) lid = Some a\<close> Some p Inr c1
          by (simp add: same_config_trans [OF c1])
      qed
    qed
  qed
qed

lemma generate_ensemble_coefficients_config:
  "same_config r (snd (generate_ensemble_coefficients mtw r m k c))"
proof -
  obtain n r1 where a: "num_covariates r = (n, r1)" by (cases "num_covariates r")
  have c1: "same_config r r1" using num_covariates_config [of r] a by simp
  obtain res r2 where b: "coefficient_rows r1 (fst (selected_learners r)) [] = (res, r2)"
    by (cases "coefficient_rows r1 (fst (selected_learners r)) []")
  have c2: "same_config r r2"
    using coefficient_rows_config [of r1 "fst (selected_learners r)" "[]"] b
    by (simp add: same_config_trans [OF c1])
  have "same_config r (snd (generate_coefficients_matrix r))"
    using c2 by (cases res) (simp_all add: generate_coefficients_matrix_def a b Let_def)
  then show ?thesis
    by (cases "generate_coefficients_matrix r")
       (auto simp: generate_ensemble_coefficients_def same_config_refl split: sum.splits)
qed

lemma create_super_learner_fails_with_fixed:
  assumes ok: "cache_ok r" and fixed: "0 < fixed_count r"
  shows "\<exists>e. fst (create_super_learner mtw r m k c) = Inl e"
proof -
  obtain res r1 where g: "generate_ensemble_coefficients mtw r m k c = (res, r1)"
    by (cases "generate_ensemble_coefficients mtw r m k c")
  have c1: "same_config r r1" using generate_ensemble_coefficients_config [of r mtw m k c] g by simp
  show ?thesis
  proof (cases res)
    case (Inl e)
    then show ?thesis by (simp add: create_super_learner_def g)
  next
    case (Inr means)
    have ok1: "cache_ok r1" using c1 ok by (simp add: same_config_def)
    have cols: "col_fixed r1 = col_fixed r" "col_explore r1 = col_explore r"
      using c1 by (simp_all add: same_config_def)
    let ?n = "fixed_count r + length (col_explore r)"
    let ?r2 = "r1\<lparr>cached_all_covariates := Some (concat (map snd (col_fixed r1)) @ col_explore r1)\<rparr>"
    have n: "num_covariates r1 = (int ?n, ?r2)"
      using num_covariates_ok [OF ok1] by (simp add: cols fixed_count_def)
    have mem: "int (length (col_explore r)) \<in> set (map int [0..<?n])" using fixed by simp
    have "fst (new_learner ?r2 (map int [0..<?n])) = Inl IndexError"
      by (rule new_learner_out_of_range [OF mem]) (simp add: cols)
    then have "fst (get_learner ?r2 (map int [0..<?n]) False) = Inl IndexError"
      by (simp add: get_learner_uncached)
    then show ?thesis
      by (cases "get_learner ?r2 (map int [0..<?n]) False")
         (simp add: create_super_learner_def g Inr n Let_def nat_int_add)
  qed
qed

text \<open>
  C2. The code on a Rover with a fixed covariate: \<open>num_covariates\<close> is 3, so the identity
  handed to \<open>get_learner\<close> is \<open>(0, 1, 2)\<close>; \<open>col_explore\<close> has two elements, and \<open>fit\<close>
  raises \<open>IndexError\<close>. (Lemma \<open>create_super_learner_fails_with_fixed\<close>: so it is for
  every Rover with a fixed covariate.)
\<close>

theorem super_learner_identity_out_of_range:
  "fst (fit (fit_scoring 1) no_strategy_by_name equal_weights 3 example_rover ()
          (Instance (two_layers [0] [[1], [0, 1]])) 10 10 (99 / 100)) = Failed IndexError
   \<and> fst (num_covariates example_rover) = 3
   \<and> py_getitems (col_explore example_rover) (map int [0..<3]) = Inl IndexError"
  by code_simp

section \<open>Creating a learner past the cache\<close>

lemma vars_dict_set:
  "vars_are_lists d \<Longrightarrow> (k = ''variables'' \<Longrightarrow> is_plist v) \<Longrightarrow> vars_are_lists (dict_set d k v)"
  using set_dict_set [of d k v] by (fastforce simp: vars_are_lists_def list_all_iff)

lemma vars_dict_update:
  "vars_are_lists d \<Longrightarrow> vars_are_lists e \<Longrightarrow> vars_are_lists (dict_update d e)"
  unfolding dict_update_def
proof (induction e arbitrary: d)
  case Nil
  then show ?case by simp
next
  case (Cons p e)
  obtain k v where p: "p = (k, v)" by (cases p)
  have "vars_are_lists (dict_set d k v)"
    using Cons.prems by (intro vars_dict_set) (auto simp: vars_are_lists_def p)
  moreover have "vars_are_lists e" using Cons.prems(2) by (simp add: vars_are_lists_def)
  ultimately show ?case using Cons.IH by (simp add: p)
qed

lemma dd_variables_plist: "vars_are_lists d \<Longrightarrow> \<exists>vs. dd_variables d = PList vs"
proof (cases "dict_get d ''variables''")
  case None
  then show ?thesis by (simp add: dd_variables_def)
next
  case (Some v)
  assume "vars_are_lists d"
  moreover have "(''variables'', v) \<in> set d"
    using Some by (auto simp: dict_get_def dest: map_of_SomeD)
  ultimately have "is_plist v" by (auto simp: vars_are_lists_def list_all_iff)
  then show ?thesis using Some by (cases v) (simp_all add: dd_variables_def is_plist_def)
qed

lemma specs_dd_get: "specs_ok specs \<Longrightarrow> vars_are_lists (dd_get specs k)"
proof (cases "dict_get specs k")
  case None
  then show ?thesis by (simp add: dd_get_def vars_are_lists_def)
next
  case (Some spec)
  assume "specs_ok specs"
  moreover have "(k, spec) \<in> set specs"
    using Some by (auto simp: dict_get_def dest: map_of_SomeD)
  ultimately show ?thesis using Some by (auto simp: specs_ok_def list_all_iff dd_get_def)
qed

lemma specs_dict_set:
  "specs_ok specs \<Longrightarrow> vars_are_lists spec \<Longrightarrow> specs_ok (dict_set specs k spec)"
  using set_dict_set [of specs k spec] by (fastforce simp: specs_ok_def list_all_iff)

lemma default_param_specs_loop_returns:
  "specs_ok user \<Longrightarrow> specs_ok acc \<Longrightarrow>
     \<exists>specs. default_param_specs_loop user cf acc = Inr specs \<and> specs_ok specs"
proof (induction cf arbitrary: acc)
  case Nil
  then show ?case by simp
next
  case (Cons p cf)
  obtain param_name fixed_columns where p: "p = (param_name, fixed_columns)" by (cases p)
  obtain vs where vs: "dd_variables (dd_get acc param_name) = PList vs"
    using dd_variables_plist [OF specs_dd_get [OF Cons.prems(2)]] by blast
  let ?inner = "dict_update (dict_set (dd_get acc param_name) ''variables'' (PList (vs @ fixed_columns)))
                  (dd_get user param_name)"
  have "vars_are_lists (dict_set (dd_get acc param_name) ''variables'' (PList (vs @ fixed_columns)))"
    by (intro vars_dict_set specs_dd_get [OF Cons.prems(2)]) (simp add: is_plist_def)
  then have "vars_are_lists ?inner"
    by (intro vars_dict_update specs_dd_get [OF Cons.prems(1)])
  then have "specs_ok (dict_set acc param_name ?inner)"
    by (intro specs_dict_set Cons.prems(2))
  from Cons.IH [OF Cons.prems(1) this] show ?case by (simp add: p vs Let_def)
qed

lemma py_getitems_in_range:
  "\<forall>i \<in> set ids. 0 \<le> i \<and> i < int (length xs) \<Longrightarrow>
     py_getitems xs ids = Inr (map (\<lambda>i. xs ! nat i) ids)"
  by (induction ids) (auto simp: py_getitem_def)

lemma new_learner_returns:
  assumes rng: "\<forall>i \<in> set lid. 0 \<le> i \<and> i < int (length (col_explore r))"
    and specs: "specs_ok (param_specs r)"
  shows "\<exists>specs vs. new_learner r lid =
           (Inr (length (objs r)),
            r\<lparr>cached_all_covariates := Some (fst (all_covariates r)),
              objs := objs r @
                [Learner (model_type r) (y_col r) specs (fst (all_covariates r)) (offset_col r)
                   (weights_col r) (model_eval_metric r)]\<rparr>) \<and>
         dd_variables (dd_get specs (explore_param r)) =
           PList (vs @ map (\<lambda>i. col_explore r ! nat i) lid)"
proof -
  have cols: "py_getitems (col_explore r) lid = Inr (map (\<lambda>i. col_explore r ! nat i) lid)"
    by (rule py_getitems_in_range [OF rng])
  obtain dspecs where d: "default_param_specs r = Inr dspecs" "specs_ok dspecs"
    using default_param_specs_loop_returns [OF specs, of "[]" "col_fixed r"]
    by (auto simp: default_param_specs_def specs_ok_def)
  obtain vs where vs: "dd_variables (dd_get dspecs (explore_param r)) = PList vs"
    using dd_variables_plist [OF specs_dd_get [OF d(2)]] by blast
  obtain ac r1 where a: "all_covariates r = (ac, r1)" by (cases "all_covariates r")
  have r1: "r1 = r\<lparr>cached_all_covariates := Some ac\<rparr>"
    using all_covariates_state [of r] a by simp
  let ?inner = "dict_set (dd_get dspecs (explore_param r)) ''variables''
                  (PList (vs @ map (\<lambda>i. col_explore r ! nat i) lid))"
  let ?specs = "dict_set dspecs (explore_param r) ?inner"
  have v: "dd_variables (dd_get ?specs (explore_param r)) =
             PList (vs @ map (\<lambda>i. col_explore r ! nat i) lid)"
    by (simp add: dd_get_def dd_variables_def dict_get_dict_set)
  have n: "new_learner r lid =
           (Inr (length (objs r)),
            r\<lparr>cached_all_covariates := Some (fst (all_covariates r)),
              objs := objs r @
                [Learner (model_type r) (y_col r) ?specs (fst (all_covariates r)) (offset_col r)
                   (weights_col r) (model_eval_metric r)]\<rparr>)"
    by (simp add: new_learner_def cols d(1) vs a r1 Let_def)
  show ?thesis using n v by blast
qed

text \<open>
  C9. \<open>get_learner\<close> with \<open>use_cache=False\<close> leaves the registry as it was and its result
  does not depend on what the registry holds. For an identity of indices into \<open>col_explore\<close>
  (and parameter specifications whose \<open>variables\<close> are lists) it returns a new \<open>Learner\<close>
  object: an unfit learner built from the Rover's settings, whose variables on the explored
  parameter end with the covariates of the identity, at a reference no existing object
  has; the objects that existed are untouched.
\<close>

theorem get_learner_uncached_registry_untouched:
  "learners (snd (get_learner r learner_id False)) = learners r
   \<and> get_learner (r\<lparr>learners := reg\<rparr>) learner_id False =
       (fst (get_learner r learner_id False), snd (get_learner r learner_id False)\<lparr>learners := reg\<rparr>)
   \<and> (case get_learner r learner_id False of
         (Inl e, r') \<Rightarrow> objs r' = objs r
       | (Inr a, r') \<Rightarrow> a = length (objs r) \<and> length (objs r') = Suc a \<and> butlast (objs r') = objs r)
   \<and> ((\<forall>i \<in> set learner_id. 0 \<le> i \<and> i < int (length (col_explore r))) \<and>
        specs_ok (param_specs r) \<longrightarrow>
        (\<exists>specs vs.
           get_learner r learner_id False =
             (Inr (length (objs r)),
              r\<lparr>cached_all_covariates := Some (fst (all_covariates r)),
                objs := objs r @
                  [Learner (model_type r) (y_col r) specs (fst (all_covariates r)) (offset_col r)
                     (weights_col r) (model_eval_metric r)]\<rparr>) \<and>
           dd_variables (dd_get specs (explore_param r)) =
             PList (vs @ map (\<lambda>i. col_explore r ! nat i) learner_id)))"
proof -
  have fresh: "(case new_learner r learner_id of
         (Inl e, r') \<Rightarrow> objs r' = objs r
       | (Inr a, r') \<Rightarrow> a = length (objs r) \<and> length (objs r') = Suc a \<and> butlast (objs r') = objs r)"
    using new_learner_cases [of r learner_id] by auto
  have frame: "learners (snd (get_learner r learner_id False)) = learners r
   \<and> get_learner (r\<lparr>learners := reg\<rparr>) learner_id False =
       (fst (get_learner r learner_id False), snd (get_learner r learner_id False)\<lparr>learners := reg\<rparr>)
   \<and> (case get_learner r learner_id False of
         (Inl e, r') \<Rightarrow> objs r' = objs r
       | (Inr a, r') \<Rightarrow> a = length (objs r) \<and> length (objs r') = Suc a \<and> butlast (objs r') = objs r)"
    using fresh
    by (simp add: get_learner_uncached new_learner_learners new_learner_ignores_registry [symmetric])
  have built: "\<exists>specs vs.
           get_learner r learner_id False =
             (Inr (length (objs r)),
              r\<lparr>cached_all_covariates := Some (fst (all_covariates r)),
                objs := objs r @
                  [Learner (model_type r) (y_col r) specs (fst (all_covariates r)) (offset_col r)
                     (weights_col r) (model_eval_metric r)]\<rparr>) \<and>
           dd_variables (dd_get specs (explore_param r)) =
             PList (vs @ map (\<lambda>i. col_explore r ! nat i) learner_id)"
    if "\<forall>i \<in> set learner_id. 0 \<le> i \<and> i < int (length (col_explore r))"
       "specs_ok (param_specs r)"
    using new_learner_returns [OF that] by (simp add: get_learner_uncached)
  then have built_imp:
    "(\<forall>i \<in> set learner_id. 0 \<le> i \<and> i < int (length (col_explore r))) \<and>
        specs_ok (param_specs r) \<longrightarrow>
        (\<exists>specs vs.
           get_learner r learner_id False =
             (Inr (length (objs r)),
              r\<lparr>cached_all_covariates := Some (fst (all_covariates r)),
                objs := objs r @
                  [Learner (model_type r) (y_col r) specs (fst (all_covariates r)) (offset_col r)
                     (weights_col r) (model_eval_metric r)]\<rparr>) \<and>
           dd_variables (dd_get specs (explore_param r)) =
             PList (vs @ map (\<lambda>i. col_explore r ! nat i) learner_id))"
    by (intro impI) (elim conjE)
  show ?thesis
    by (rule conjI [OF frame [THEN conjunct1]
          conjI [OF frame [THEN conjunct2, THEN conjunct1]
            conjI [OF frame [THEN conjunct2, THEN conjunct2] built_imp]]])
qed

theorem get_learner_uncached_registry_untouched_witness:
  "fst (get_learner explored_rover [0] False) = Inr 1
   \<and> learners (snd (get_learner explored_rover [0] False)) = [([0], 0)]
   \<and> \<not> has_been_fit (objs (snd (get_learner explored_rover [0] False)) ! 1)
   \<and> objs (snd (get_learner explored_rover [0] False)) ! 0 = objs explored_rover ! 0
   \<and> has_been_fit (objs explored_rover ! 0)"
proof -
  have h1: "\<forall>i \<in> set [0]. 0 \<le> i \<and> i < int (length (col_explore explored_rover))"
    unfolding explored_rover_def by code_simp
  have h2: "specs_ok (param_specs explored_rover)"
    unfolding explored_rover_def by code_simp
  have len: "length (objs explored_rover) = 1" unfolding explored_rover_def by code_simp
  have reg: "learners explored_rover = [([0], 0)]" unfolding explored_rover_def by code_simp
  have fitted: "has_been_fit (objs explored_rover ! 0)" unfolding explored_rover_def by code_simp
  obtain specs where g: "get_learner explored_rover [0] False =
      (Inr (length (objs explored_rover)),
       explored_rover\<lparr>cached_all_covariates := Some (fst (all_covariates explored_rover)),
         objs := objs explored_rover @
           [Learner (model_type explored_rover) (y_col explored_rover) specs
              (fst (all_covariates explored_rover)) (offset_col explored_rover)
              (weights_col explored_rover) (model_eval_metric explored_rover)]\<rparr>)"
    using get_learner_uncached_registry_untouched [of explored_rover "[0]" "[]"] h1 h2 by blast
  show ?thesis using len reg fitted by (simp add: g Learner_def nth_append)
qed

end
